theory Spec2Isabelle
  imports Main "HOL-Library.Sublist"
begin

section \<open>Python strings as used by the importer\<close>

text \<open>\<^verbatim>\<open>s.count(sub)\<close>: the number of non-overlapping occurrences of \<open>sub\<close> in
  \<open>s\<close>, scanning from the left.\<close>

function str_count :: "string \<Rightarrow> string \<Rightarrow> nat" where
  "str_count s sub =
     (if sub = [] then length s + 1
      else if s = [] then 0
      else if prefix sub s then 1 + str_count (drop (length sub) s) sub
      else str_count (tl s) sub)"
  by pat_completeness auto
termination
  by (relation "measure (\<lambda>(s, sub). length s)") auto

declare str_count.simps [simp del]

text \<open>\<^verbatim>\<open>s.replace(old, new)\<close> for a non-empty \<open>old\<close>: every non-overlapping
  occurrence, from the left, is replaced.\<close>

function str_replace :: "string \<Rightarrow> string \<Rightarrow> string \<Rightarrow> string" where
  "str_replace s old new =
     (if old = [] \<or> s = [] then s
      else if prefix old s then new @ str_replace (drop (length old) s) old new
      else hd s # str_replace (tl s) old new)"
  by pat_completeness auto
termination
  by (relation "measure (\<lambda>(s, old, new). length s)") auto

declare str_replace.simps [simp del]

text \<open>\<^verbatim>\<open>s.strip()\<close>: leading and trailing ASCII white space is removed.\<close>

definition is_space :: "char \<Rightarrow> bool" where
  "is_space c = (c \<in> set [CHR '' '', CHR 0x09, CHR 0x0A, CHR 0x0B, CHR 0x0C, CHR 0x0D])"

definition strip :: "string \<Rightarrow> string" where
  "strip s = rev (dropWhile is_space (rev (dropWhile is_space s)))"

text \<open>\<^verbatim>\<open>sep.join(xs)\<close>.\<close>

fun join :: "string \<Rightarrow> string list \<Rightarrow> string" where
  "join sep [] = []"
| "join sep [x] = x"
| "join sep (x # y # ys) = x @ sep @ join sep (y # ys)"

text \<open>\<^verbatim>\<open>os.path.join(a, b)\<close> for a relative \<open>b\<close>; every second argument in
  this program starts with a letter.\<close>

definition path_join :: "string \<Rightarrow> string \<Rightarrow> string" where
  "path_join a b = (if a = [] \<or> last a = CHR ''/'' then a @ b else a @ ''/'' @ b)"

section \<open>Exceptions\<close>

text \<open>\<^verbatim>\<open>sys.exit(n)\<close> raises \<open>SystemExit\<close>; it unwinds like any other
  exception.\<close>

datatype exn =
    SystemExit int
  | CalledProcessError
  | ValueError
  | AttributeError
  | OSError
  | RuntimeError string
  | OtherException string

section \<open>distutils.version.StrictVersion\<close>

text \<open>The standard library class. Its method \<open>parse\<close> matches the string against
  \<^verbatim>\<open>^(\d+) \. (\d+) (\. (\d+))? ([ab](\d+))?$\<close> (verbose mode, so the blanks do not
  count; \<^verbatim>\<open>$\<close> also matches before one final newline) and raises
  \<open>ValueError\<close> when there is no match. The value is the triple of numbers, the
  patch being 0 when absent, and the optional pre-release tag.\<close>

type_synonym strict_version = "(nat \<times> nat \<times> nat) \<times> (char \<times> nat) option"

definition is_digit :: "char \<Rightarrow> bool" where
  "is_digit c = (48 \<le> (of_char c :: nat) \<and> (of_char c :: nat) \<le> 57)"

definition int_of_digits :: "string \<Rightarrow> nat" where
  "int_of_digits ds = foldl (\<lambda>n c. 10 * n + (of_char c - 48)) 0 ds"

definition parse :: "string \<Rightarrow> exn + strict_version" where
  "parse vstring =
     (let s = (if vstring \<noteq> [] \<and> last vstring = CHR 0x0A then butlast vstring else vstring);
          major = takeWhile is_digit s;
          r1 = dropWhile is_digit s
      in if major = [] then Inl ValueError
         else case r1 of
           [] \<Rightarrow> Inl ValueError
         | c # r2 \<Rightarrow>
             if c \<noteq> CHR ''.'' then Inl ValueError
             else
               let minor = takeWhile is_digit r2;
                   r3 = dropWhile is_digit r2
               in if minor = [] then Inl ValueError
                  else
                    let has_patch = (r3 \<noteq> [] \<and> hd r3 = CHR ''.'' \<and> takeWhile is_digit (tl r3) \<noteq> []);
                        patch = (if has_patch then takeWhile is_digit (tl r3) else []);
                        r4 = (if has_patch then dropWhile is_digit (tl r3) else r3);
                        has_pre = (r4 \<noteq> [] \<and> (hd r4 = CHR ''a'' \<or> hd r4 = CHR ''b'')
                                     \<and> takeWhile is_digit (tl r4) \<noteq> []);
                        r5 = (if has_pre then dropWhile is_digit (tl r4) else r4)
                    in if r5 \<noteq> [] then Inl ValueError
                       else Inr ((int_of_digits major, int_of_digits minor,
                                  if has_patch then int_of_digits patch else 0),
                                 if has_pre then Some (hd r4, int_of_digits (takeWhile is_digit (tl r4)))
                                 else None))"

text \<open>\<^verbatim>\<open>cmp\<close> on tuples of numbers, and on the pre-release pairs.\<close>

definition cmp_nat :: "nat \<Rightarrow> nat \<Rightarrow> int" where
  "cmp_nat a b = (if a < b then -1 else if a = b then 0 else 1)"

definition cmp_triple :: "nat \<times> nat \<times> nat \<Rightarrow> nat \<times> nat \<times> nat \<Rightarrow> int" where
  "cmp_triple x y =
     (case (x, y) of ((a, b, c), (a', b', c')) \<Rightarrow>
        if cmp_nat a a' \<noteq> 0 then cmp_nat a a'
        else if cmp_nat b b' \<noteq> 0 then cmp_nat b b'
        else cmp_nat c c')"

definition cmp_prerelease :: "char \<times> nat \<Rightarrow> char \<times> nat \<Rightarrow> int" where
  "cmp_prerelease p q =
     (case (p, q) of ((c, n), (c', n')) \<Rightarrow>
        if cmp_nat (of_char c) (of_char c') \<noteq> 0 then cmp_nat (of_char c) (of_char c')
        else cmp_nat n n')"

text \<open>\<^verbatim>\<open>StrictVersion.__cmp__\<close>: the number triples decide; when they are equal, a
  version with a pre-release tag is smaller than one without.\<close>

definition version_cmp :: "strict_version \<Rightarrow> strict_version \<Rightarrow> int" where
  "version_cmp v w =
     (let compare = cmp_triple (fst v) (fst w)
      in if compare = 0 then
           (case (snd v, snd w) of
              (None, None) \<Rightarrow> 0
            | (Some p, None) \<Rightarrow> -1
            | (None, Some q) \<Rightarrow> 1
            | (Some p, Some q) \<Rightarrow> cmp_prerelease p q)
         else compare)"

definition version_less :: "strict_version \<Rightarrow> strict_version \<Rightarrow> bool" where
  "version_less v w = (version_cmp v w < 0)"

definition version_le :: "strict_version \<Rightarrow> strict_version \<Rightarrow> bool" where
  "version_le v w = (version_cmp v w \<le> 0)"

text \<open>The constructor, \<^verbatim>\<open>if vstring: self.parse(vstring)\<close>: the empty string is not
  parsed at all, and the object is left without its attributes \<open>version\<close> and
  \<open>prerelease\<close>; \<open>None\<close> stands for such an object.\<close>

definition StrictVersion :: "string \<Rightarrow> exn + strict_version option" where
  "StrictVersion vstring =
     (if vstring = [] then Inr None
      else case parse vstring of Inl e \<Rightarrow> Inl e | Inr v \<Rightarrow> Inr (Some v))"

text \<open>A comparison of two objects reads \<open>version\<close> of both and raises
  \<open>AttributeError\<close> when one of them has not been parsed.\<close>

definition compare_objects ::
  "strict_version option \<Rightarrow> strict_version option \<Rightarrow> (strict_version \<Rightarrow> strict_version \<Rightarrow> bool)
     \<Rightarrow> exn + bool" where
  "compare_objects x y rel =
     (case (x, y) of
        (Some v, Some w) \<Rightarrow> Inr (rel v w)
      | _ \<Rightarrow> Inl AttributeError)"

section \<open>The outside world\<close>

text \<open>What the run does to the outside world, in order. Informational and debug output
  is not recorded; warnings and errors are, with the values they are formatted with.\<close>

datatype msg =
    NotABloomRepo
  | OverridingBranch string
  | CouldNotCheckout string
  | CouldNotCheckoutBranch string string
  | NotCatkinNeedsNameAndTag
  | FailedToGetMeta
  | CatkinPkgNotDetected
  | NeitherStackNorPackage
  | PackageXmlNotDetected
  | DifferentVersions string
  | TagNotFoundAt string
  | Trying string
  | CouldNotCheckoutVersion
  | FailedToExport
  | VersionRegressed string string
  | ReplaceNotSupported
  | RemovingConflictingTag string
  | EqualToPrevious string
  | NotAGitRepo
  | InUpstreamBranch

datatype event =
    TrackBranches "string list"
  | MakeDirs string
  | Chdir string
  | Rmtree string
  | VcsCheckout string string string string
  | VcsUpdate string string string
  | VcsExport string string string string
  | CheckOutput string
  | ExecuteCommand string
  | GitCheckout string
  | CreateBranch string bool bool
  | BranchExists string
  | PathExists string
  | ReadFile string
  | WriteFile string string
  | FindPackages string
  | ParseStackFile string
  | GetLastTagByDate
  | ImportOrig string bool bool
  | GetRoot
  | GetCurrentBranch
  | CreateTemporaryDirectory
  | GetCwd
  | PrintExc
  | Warning msg
  | Error msg

text \<open>\<open>VcsCheckout\<close>, \<open>VcsUpdate\<close> and \<open>VcsExport\<close> are the methods of a
  \<open>vcstools.VcsClient\<close>; the first two arguments are the client's type and local
  path, then come the method's own arguments (url and version; version; version and
  archive path).\<close>

record package =
  pkg_name :: string
  pkg_version :: string

text \<open>The replies of the helpers that \<^verbatim>\<open>import_upstream.py\<close> imports
  (\<open>bloom.util\<close>, \<open>bloom.git\<close>, \<open>bloom.gbp\<close>, \<open>vcstools\<close>, \<open>catkin_pkg\<close>,
  \<open>rospkg\<close>, \<open>os\<close>) are parameters of the model. A helper that is called from
  more than one place takes the source line of the call first, so that the same command
  may answer differently later in the run. \<open>Inl e\<close>, or \<open>Some e\<close> for a helper
  without a result, says that the call raises \<open>e\<close>; so it is for
  \<^verbatim>\<open>os.makedirs\<close>, \<^verbatim>\<open>os.chdir\<close>, \<^verbatim>\<open>shutil.rmtree\<close> and the \<^verbatim>\<open>os.getcwd\<close> of
  \<open>main\<close>. The \<open>VcsClient\<close> methods and \<^verbatim>\<open>os.path.exists\<close> answer with a
  truth value; they, the reading and writing of the configuration file in the conversion,
  and the \<^verbatim>\<open>os.getcwd\<close> of line 242, which yields the directory the run has just
  changed into, are taken to return.\<close>

record env =
  track_branches :: "nat \<Rightarrow> exn option"
  check_output :: "nat \<Rightarrow> string \<Rightarrow> exn + string"
  execute_command :: "nat \<Rightarrow> string \<Rightarrow> exn option"
  checkout :: "nat \<Rightarrow> string \<Rightarrow> exn option"
  path_exists :: "nat \<Rightarrow> string \<Rightarrow> bool"
  makedirs :: "string \<Rightarrow> exn option"
  chdir :: "nat \<Rightarrow> string \<Rightarrow> exn option"
  rmtree :: "string \<Rightarrow> exn option"
  read_file :: "string \<Rightarrow> string"
  vcs_checkout :: "nat \<Rightarrow> string \<Rightarrow> string \<Rightarrow> bool"
  export_repository :: "string \<Rightarrow> string \<Rightarrow> bool"
  catkin_pkg_installed :: bool
  has_rospkg :: bool
  find_packages :: "string \<Rightarrow> (string \<times> package) list"
  parse_stack_file :: "string \<Rightarrow> string \<times> string option"
  get_last_tag_by_date :: "exn + string"
  segment_version :: "string \<Rightarrow> exn + string list"
  get_versions_from_upstream_tag :: "string \<Rightarrow> exn + string list"
  has_replace :: bool
  create_branch :: "exn option"
  import_orig :: "string \<Rightarrow> bool \<Rightarrow> bool \<Rightarrow> exn + int"
  get_root :: "string option"
  get_current_branch :: "exn + string option"
  create_temporary_directory :: "exn + string"
  getcwd :: "exn + string"
  branch_exists :: "string \<Rightarrow> exn + bool"

text \<open>The parsed command line; \<open>upstream_name\<close> and \<open>upstream_tag\<close> are
  \<^verbatim>\<open>args.name\<close> and \<^verbatim>\<open>args.tag\<close>, the values of \<^verbatim>\<open>--upstream-name\<close> and
  \<^verbatim>\<open>--upstream-tag\<close>.\<close>

record args =
  upstream_devel :: "string option"
  interactive :: bool
  merge :: bool
  replace :: bool
  not_catkin :: bool
  upstream_name :: "string option"
  upstream_tag :: "string option"

section \<open>Control flow\<close>

text \<open>A piece of the program yields the events it caused and either a value, with
  which the run goes on, or the way it left \<open>import_upstream\<close>: a \<^verbatim>\<open>return n\<close>
  or a raised exception.\<close>

datatype stop = Return int | Raise exn

type_synonym 'a run = "event list \<times> (stop + 'a)"

definition continue :: "'a \<Rightarrow> 'a run" where
  "continue x = ([], Inr x)"

definition return_code :: "int \<Rightarrow> 'a run" where
  "return_code n = ([], Inl (Return n))"

definition raise :: "exn \<Rightarrow> 'a run" where
  "raise e = ([], Inl (Raise e))"

definition sys_exit :: "int \<Rightarrow> 'a run" where
  "sys_exit n = raise (SystemExit n)"

definition emit :: "event \<Rightarrow> unit run" where
  "emit ev = ([ev], Inr ())"

definition lift :: "exn + 'a \<Rightarrow> 'a run" where
  "lift r = (case r of Inl e \<Rightarrow> raise e | Inr x \<Rightarrow> continue x)"

definition call :: "event \<Rightarrow> exn + 'a \<Rightarrow> 'a run" where
  "call ev r = ([ev], snd (lift r))"

definition call_unit :: "event \<Rightarrow> exn option \<Rightarrow> unit run" where
  "call_unit ev r = ([ev], case r of None \<Rightarrow> Inr () | Some e \<Rightarrow> Inl (Raise e))"

definition seq :: "'a run \<Rightarrow> ('a \<Rightarrow> 'b run) \<Rightarrow> 'b run" where
  "seq m f =
     (case m of
        (tr, Inl s) \<Rightarrow> (tr, Inl s)
      | (tr, Inr x) \<Rightarrow> (case f x of (tr', r) \<Rightarrow> (tr @ tr', r)))"

text \<open>\<^verbatim>\<open>try: body except CalledProcessError: handler\<close>\<close>

definition except_CalledProcessError :: "'a run \<Rightarrow> 'a run \<Rightarrow> 'a run" where
  "except_CalledProcessError body handler =
     (case body of
        (tr, Inl (Raise CalledProcessError)) \<Rightarrow> (case handler of (tr', r) \<Rightarrow> (tr @ tr', r))
      | (tr, r) \<Rightarrow> (tr, r))"

text \<open>\<^verbatim>\<open>try: body finally: cleanup\<close>: the cleanup runs however the body ends; when
  the cleanup itself raises, that exception replaces the body's outcome.\<close>

definition try_finally :: "'a run \<Rightarrow> unit run \<Rightarrow> 'a run" where
  "try_finally body cleanup =
     (case body of (tr, r) \<Rightarrow>
        (case cleanup of
           (tr', Inl s) \<Rightarrow> (tr @ tr', Inl s)
         | (tr', Inr u) \<Rightarrow> (tr @ tr', r)))"

section \<open>The repository validator and the configuration reader\<close>

definition exec :: "env \<Rightarrow> nat \<Rightarrow> string \<Rightarrow> unit run" where
  "exec E line cmd = call_unit (ExecuteCommand cmd) (execute_command E line cmd)"

definition git_checkout :: "env \<Rightarrow> nat \<Rightarrow> string \<Rightarrow> unit run" where
  "git_checkout E line branch = call_unit (GitCheckout branch) (checkout E line branch)"

definition os_path_exists :: "env \<Rightarrow> nat \<Rightarrow> string \<Rightarrow> bool run" where
  "os_path_exists E line path = ([PathExists path], Inr (path_exists E line path))"

text \<open>Lines 86 to 107. The only caller passes a directory, never \<^verbatim>\<open>None\<close>.\<close>

definition convert_catkin_to_bloom :: "env \<Rightarrow> string \<Rightarrow> unit run" where
  "convert_catkin_to_bloom E cwd =
     seq (exec E 91 ''git branch -m catkin bloom'') (\<lambda>_.
     seq (git_checkout E 93 ''bloom'') (\<lambda>_.
     seq (os_path_exists E 95 (path_join cwd ''catkin.conf'')) (\<lambda>has_catkin_conf.
     seq (if has_catkin_conf then exec E 96 ''git mv catkin.conf bloom.conf''
          else continue ()) (\<lambda>_.
     let bloom_path = path_join cwd ''bloom.conf'' in
     seq (os_path_exists E 99 bloom_path) (\<lambda>has_bloom_conf.
       if has_bloom_conf then
         seq (emit (ReadFile bloom_path)) (\<lambda>_.
         let conf_file = str_replace (read_file E bloom_path) ''[catkin]'' ''[bloom]'' in
         seq (emit (WriteFile bloom_path conf_file)) (\<lambda>_.
         seq (exec E 104 ''git add bloom.conf'') (\<lambda>_.
         exec E 107 (''git commit -m '' @ [CHR 0x22] @ ''rename catkin.conf to bloom.conf''
                       @ [CHR 0x22]))))
       else continue ())))))"

text \<open>Lines 110 to 114.\<close>

definition not_a_bloom_release_repo :: "unit run" where
  "not_a_bloom_release_repo = seq (emit (Error NotABloomRepo)) (\<lambda>_. sys_exit 1)"

text \<open>Lines 117 to 140.\<close>

definition check_for_bloom :: "env \<Rightarrow> string \<Rightarrow> unit run" where
  "check_for_bloom E cwd =
     seq (call (CheckOutput ''git branch'') (check_output E 122 ''git branch'')) (\<lambda>branches.
     seq (if str_count branches ''bloom'' = 0 then
            (if str_count branches ''catkin'' = 0 then not_a_bloom_release_repo
             else convert_catkin_to_bloom E cwd)
          else continue ()) (\<lambda>_.
     seq (except_CalledProcessError (git_checkout E 134 ''bloom'') not_a_bloom_release_repo) (\<lambda>_.
     let loc = path_join cwd ''bloom.conf'' in
     seq (os_path_exists E 138 loc) (\<lambda>found.
       if \<not> found then not_a_bloom_release_repo else continue ()))))"

text \<open>Lines 143 to 156.\<close>

definition parse_bloom_conf :: "env \<Rightarrow> (string \<times> string \<times> string) run" where
  "parse_bloom_conf E =
     (let cmd1 = ''git config -f bloom.conf bloom.upstream'';
          cmd2 = ''git config -f bloom.conf bloom.upstreamtype'';
          cmd3 = ''git config -f bloom.conf bloom.upstreambranch''
      in
      seq (call (CheckOutput cmd1) (check_output E 148 cmd1)) (\<lambda>out1.
      let upstream_repo = strip out1 in
      seq (call (CheckOutput cmd2) (check_output E 150 cmd2)) (\<lambda>out2.
      let upstream_type = strip out2 in
      seq (except_CalledProcessError
             (seq (call (CheckOutput cmd3) (check_output E 153 cmd3)) (\<lambda>out3. continue (strip out3)))
             (continue [])) (\<lambda>upstream_branch.
      continue (upstream_repo, upstream_type, upstream_branch)))))"

text \<open>Lines 159 to 163.\<close>

definition create_initial_upstream_branch :: "env \<Rightarrow> unit run" where
  "create_initial_upstream_branch E =
     call_unit (CreateBranch ''upstream'' True True) (create_branch E)"

section \<open>The metadata resolver\<close>

text \<open>\<open>catkin_pkg.packages.verify_equal_package_versions\<close>, of the library the
  importer calls: the first package's version, unless a later package has another one,
  which raises \<open>RuntimeError\<close> with both versions in the message (the file names that
  the message also holds are left out). \<open>Inr None\<close> is Python's \<^verbatim>\<open>None\<close>, for no
  package at all.\<close>

fun verify_from :: "string option \<Rightarrow> package list \<Rightarrow> string + string option" where
  "verify_from version [] = Inr version"
| "verify_from None (p # ps) = verify_from (Some (pkg_version p)) ps"
| "verify_from (Some v) (p # ps) =
     (if pkg_version p \<noteq> v
      then Inl (''Two packages have different version numbers ('' @ pkg_version p @ '' != '' @ v @ '')'')
      else verify_from (Some v) ps)"

definition verify_equal_package_versions :: "package list \<Rightarrow> string + string option" where
  "verify_equal_package_versions packages = verify_from None packages"

text \<open>The dictionary \<open>meta\<close>: its \<open>name\<close> is a list for the two manifest kinds and
  a plain string for \<^verbatim>\<open>--not-catkin\<close>.\<close>

datatype meta_name = NameList "string list" | NameStr string

record meta =
  meta_name :: meta_name
  meta_version :: "string option"
  meta_type :: string

text \<open>Lines 179 to 223. \<open>find_packages\<close> yields the dictionary from paths to
  packages, as the list of its items in iteration order.\<close>

definition get_upstream_meta :: "env \<Rightarrow> string \<Rightarrow> meta option run" where
  "get_upstream_meta E upstream_dir =
     (let stack_path = path_join upstream_dir ''stack.xml'' in
      if \<not> catkin_pkg_installed E then seq (emit (Error CatkinPkgNotDetected)) (\<lambda>_. sys_exit 1)
      else
        seq (emit (FindPackages upstream_dir)) (\<lambda>_.
        let packages = find_packages E upstream_dir in
        if packages = [] then
          (if has_rospkg E then
             seq (os_path_exists E 196 stack_path) (\<lambda>found.
               if found then
                 seq (emit (ParseStackFile stack_path)) (\<lambda>_.
                 let stack = parse_stack_file E stack_path in
                 continue (Some \<lparr>meta_name = NameList [fst stack], meta_version = snd stack,
                                  meta_type = ''stack.xml''\<rparr>))
               else seq (emit (Error NeitherStackNorPackage)) (\<lambda>_. sys_exit 1))
           else seq (emit (Error PackageXmlNotDetected)) (\<lambda>_. sys_exit 1))
        else
          (case verify_equal_package_versions (map snd packages) of
             Inl err \<Rightarrow>
               seq (emit PrintExc) (\<lambda>_.
               seq (emit (Error (DifferentVersions err))) (\<lambda>_. sys_exit 1))
           | Inr version \<Rightarrow>
               continue (Some \<lparr>meta_name = NameList (map (\<lambda>p. pkg_name (snd p)) packages),
                                meta_version = version, meta_type = ''package.xml''\<rparr>))))"

section \<open>The import\<close>

text \<open>The body of \<open>import_upstream\<close> (lines 227 to 409), cut into its steps.\<close>

text \<open>Lines 228 to 239: the clone of the release repository in the temporary directory.
  The result of the clone's \<open>checkout\<close> is not looked at.\<close>

definition clone_release_repo :: "env \<Rightarrow> string \<Rightarrow> string \<Rightarrow> string run" where
  "clone_release_repo E cwd tmp_dir =
     seq (call_unit (TrackBranches [''bloom'', ''upstream'']) (track_branches E 229)) (\<lambda>_.
     let bloom_repo_clone_dir = path_join tmp_dir ''bloom_clone'' in
     seq (call_unit (MakeDirs bloom_repo_clone_dir) (makedirs E bloom_repo_clone_dir)) (\<lambda>_.
     seq (call_unit (Chdir bloom_repo_clone_dir) (chdir E 234 bloom_repo_clone_dir)) (\<lambda>_.
     seq (emit (VcsCheckout ''git'' bloom_repo_clone_dir (''file://'' @ cwd) [])) (\<lambda>_.
     seq (call_unit (TrackBranches [''bloom'', ''upstream'']) (track_branches E 239)) (\<lambda>_.
     continue bloom_repo_clone_dir)))))"

text \<open>Lines 247 to 290: the branch to check out, the url, and the checkout of the
  upstream tree.\<close>

definition checkout_upstream ::
  "env \<Rightarrow> string \<Rightarrow> args \<Rightarrow> string \<Rightarrow> string \<Rightarrow> string \<Rightarrow> string run" where
  "checkout_upstream E tmp_dir a upstream_repo upstream_type upstream_branch =
     seq (case upstream_devel a of
            Some v \<Rightarrow> seq (emit (Warning (OverridingBranch v))) (\<lambda>_. continue v)
          | None \<Rightarrow> continue upstream_branch) (\<lambda>ver0.
     let upstream_dir = path_join tmp_dir ''upstream'';
         ver = (if ver0 \<noteq> ''(No branch set)'' then ver0 else []);
         checkout_url =
           (if upstream_type = ''svn''
            then (if ver = [] then upstream_repo @ ''/trunk''
                  else upstream_repo @ ''/branches/'' @ ver)
            else upstream_repo);
         checkout_ver = (if upstream_type = ''svn'' then [] else ver)
     in
     seq (emit (VcsCheckout upstream_type upstream_dir checkout_url checkout_ver)) (\<lambda>_.
     if \<not> vcs_checkout E 278 checkout_url checkout_ver then
       seq (emit (Error (if upstream_type = ''svn'' then CouldNotCheckout checkout_url
                         else CouldNotCheckoutBranch checkout_url ver))) (\<lambda>_.
       return_code 1)
     else continue ver))"

text \<open>Lines 228 to 290 together.\<close>

definition fetch ::
  "env \<Rightarrow> string \<Rightarrow> string \<Rightarrow> args \<Rightarrow> (string \<times> string \<times> string) run" where
  "fetch E cwd tmp_dir a =
     seq (clone_release_repo E cwd tmp_dir) (\<lambda>clone_dir.
     seq (check_for_bloom E clone_dir) (\<lambda>_.
     seq (parse_bloom_conf E) (\<lambda>(upstream_repo, upstream_type, upstream_branch).
     seq (checkout_upstream E tmp_dir a upstream_repo upstream_type upstream_branch) (\<lambda>ver.
     continue (clone_dir, upstream_repo, upstream_type)))))"

text \<open>Lines 292 to 306.\<close>

definition resolve_meta :: "env \<Rightarrow> args \<Rightarrow> string \<Rightarrow> meta run" where
  "resolve_meta E a upstream_dir =
     (if not_catkin a then
        (case (upstream_name a, upstream_tag a) of
           (Some n, Some t) \<Rightarrow>
             continue \<lparr>meta_name = NameStr n, meta_version = Some t, meta_type = ''not_catkin''\<rparr>
         | _ \<Rightarrow> seq (emit (Error NotCatkinNeedsNameAndTag)) (\<lambda>_. return_code 1))
      else
        seq (get_upstream_meta E upstream_dir) (\<lambda>m.
          case m of
            None \<Rightarrow> seq (emit (Error FailedToGetMeta)) (\<lambda>_. sys_exit 1)
          | Some meta \<Rightarrow>
              if meta_version meta = None
              then seq (emit (Error FailedToGetMeta)) (\<lambda>_. sys_exit 1)
              else continue meta))"

text \<open>Lines 308 to 324: the summary is informational; what remains is the first name
  and the version. Concatenating \<^verbatim>\<open>None\<close> to a string is a \<open>TypeError\<close>, the
  first element of an empty list an \<open>IndexError\<close>.\<close>

definition name_and_version :: "meta \<Rightarrow> (string \<times> string) run" where
  "name_and_version meta =
     (case meta_version meta of
        None \<Rightarrow> raise (OtherException ''TypeError'')
      | Some version \<Rightarrow>
          (case meta_name meta of
             NameStr n \<Rightarrow> continue (n, version)
           | NameList [] \<Rightarrow> raise (OtherException ''IndexError'')
           | NameList (n # ns) \<Rightarrow> continue (n, version)))"

text \<open>Lines 326 to 345: for svn the tagged tree is checked out anew, under one of two
  tag paths, and exported from there.\<close>

definition export_tarball ::
  "env \<Rightarrow> string \<Rightarrow> string \<Rightarrow> string \<Rightarrow> string \<Rightarrow> string \<Rightarrow> string run" where
  "export_tarball E tmp_dir upstream_repo upstream_type name version =
     (let tarball_prefix = ''upstream-'' @ version;
          tarball_path = path_join tmp_dir tarball_prefix
      in
      seq (if upstream_type = ''svn'' then
             (let svn_dir = path_join tmp_dir ''svn_tag'';
                  url1 = upstream_repo @ ''/tags/'' @ version
              in
              seq (emit (VcsCheckout ''svn'' svn_dir url1 [])) (\<lambda>_.
              if \<not> vcs_checkout E 335 url1 [] then
                seq (emit (Warning (TagNotFoundAt url1))) (\<lambda>_.
                let url2 = upstream_repo @ ''/tags/'' @ name @ ''-'' @ version in
                seq (emit (Warning (Trying url2))) (\<lambda>_.
                seq (emit (VcsCheckout ''svn'' svn_dir url2 [])) (\<lambda>_.
                if \<not> vcs_checkout E 339 url2 [] then
                  seq (emit (Error CouldNotCheckoutVersion)) (\<lambda>_. return_code 1)
                else continue (''svn'', svn_dir, []))))
              else continue (''svn'', svn_dir, [])))
           else continue (upstream_type, path_join tmp_dir ''upstream'', version))
        (\<lambda>(client_type, client_dir, export_version).
      seq (emit (VcsExport client_type client_dir export_version tarball_path)) (\<lambda>_.
      if \<not> export_repository E export_version tarball_path then
        seq (emit (Error FailedToExport)) (\<lambda>_. return_code 1)
      else continue tarball_path)))"

text \<open>Lines 292 to 345 together.\<close>

definition resolve_and_export ::
  "env \<Rightarrow> string \<Rightarrow> args \<Rightarrow> string \<Rightarrow> string \<Rightarrow> (string \<times> string) run" where
  "resolve_and_export E tmp_dir a upstream_repo upstream_type =
     seq (resolve_meta E a (path_join tmp_dir ''upstream'')) (\<lambda>meta.
     seq (name_and_version meta) (\<lambda>(name, version).
     seq (export_tarball E tmp_dir upstream_repo upstream_type name version) (\<lambda>tarball_path.
     continue (version, tarball_path))))"

text \<open>Unpacking into three variables raises \<open>ValueError\<close> unless there are exactly
  three values.\<close>

definition unpack3 :: "string list \<Rightarrow> (string \<times> string \<times> string) run" where
  "unpack3 xs = (case xs of [x, y, z] \<Rightarrow> continue (x, y, z) | _ \<Rightarrow> raise ValueError)"

text \<open>Lines 347 to 391: the version guard.\<close>

definition version_guard :: "env \<Rightarrow> args \<Rightarrow> string \<Rightarrow> (string \<times> string \<times> string) run" where
  "version_guard E a version =
     seq (call GetLastTagByDate (get_last_tag_by_date E)) (\<lambda>last_tag.
     if last_tag = [] then seq (lift (segment_version E version)) unpack3
     else
       seq (seq (lift (get_versions_from_upstream_tag E last_tag)) unpack3)
         (\<lambda>(gbp_major, gbp_minor, gbp_patch).
       seq (lift (StrictVersion version)) (\<lambda>full_version_strict.
       let last_tag_version = join ''.'' [gbp_major, gbp_minor, gbp_patch] in
       seq (lift (StrictVersion last_tag_version)) (\<lambda>last_tag_version_strict.
       seq (lift (compare_objects full_version_strict last_tag_version_strict version_less))
         (\<lambda>is_less.
       seq (if is_less
            then emit (Warning (VersionRegressed version last_tag_version))
            else continue ()) (\<lambda>_.
       seq (lift (compare_objects full_version_strict last_tag_version_strict version_le))
         (\<lambda>is_less_or_equal.
       seq (if is_less_or_equal then
              (if replace a then
                 (if \<not> has_replace E then
                    seq (emit (Error ReplaceNotSupported)) (\<lambda>_. return_code 1)
                  else
                    seq (emit (Warning (RemovingConflictingTag version))) (\<lambda>_.
                    seq (exec E 382 (''git tag -d '' @ last_tag)) (\<lambda>_.
                    exec E 383 (''git push origin :refs/tags/'' @ last_tag))))
               else emit (Warning (EqualToPrevious version)))
            else continue ()) (\<lambda>_.
       continue (gbp_major, gbp_minor, gbp_patch)))))))))"

text \<open>Lines 393 to 409: the importer. A result of \<open>import_orig\<close> that is not zero
  counts as true.\<close>

definition importer :: "env \<Rightarrow> args \<Rightarrow> string \<Rightarrow> string \<Rightarrow> unit run" where
  "importer E a clone_dir tarball_path =
     seq (call (CheckOutput ''git branch'') (check_output E 394 ''git branch'')) (\<lambda>output.
     seq (if str_count output ''upstream'' = 0 then create_initial_upstream_branch E
          else continue ()) (\<lambda>_.
     seq (emit (VcsUpdate ''git'' clone_dir ''master'')) (\<lambda>_.
     seq (call (ImportOrig (tarball_path @ ''.tar.gz'') (interactive a) (merge a))
            (import_orig E (tarball_path @ ''.tar.gz'') (interactive a) (merge a))) (\<lambda>rc.
     if rc \<noteq> 0 then return_code 1
     else
       seq (exec E 408 ''git push --all -f'') (\<lambda>_.
       exec E 409 ''git push --tags'')))))"

definition import_upstream :: "env \<Rightarrow> string \<Rightarrow> string \<Rightarrow> args \<Rightarrow> unit run" where
  "import_upstream E cwd tmp_dir a =
     seq (fetch E cwd tmp_dir a) (\<lambda>(clone_dir, upstream_repo, upstream_type).
     seq (resolve_and_export E tmp_dir a upstream_repo upstream_type) (\<lambda>(version, tarball_path).
     seq (version_guard E a version) (\<lambda>gbp.
     importer E a clone_dir tarball_path)))"

text \<open>Lines 499 to 532 of \<open>main\<close>, from the parsed arguments on. The working
  directory is asked for after the temporary directory has been created and before the
  \<^verbatim>\<open>try\<close>. In the \<^verbatim>\<open>finally\<close> block each step follows only when the one before
  has returned. A branch name is true when it is neither \<^verbatim>\<open>None\<close> nor empty.\<close>

definition restore :: "env \<Rightarrow> string \<Rightarrow> string \<Rightarrow> string option \<Rightarrow> unit run" where
  "restore E cwd tmp_dir current_branch =
     seq (call_unit (Chdir cwd) (chdir E 528 cwd)) (\<lambda>_.
     seq (call_unit (Rmtree tmp_dir) (rmtree E tmp_dir)) (\<lambda>_.
     case current_branch of
       None \<Rightarrow> continue ()
     | Some b \<Rightarrow>
         if b = [] then continue ()
         else
           seq (call (BranchExists b) (branch_exists E b)) (\<lambda>still_there.
           if still_there then git_checkout E 532 b else continue ())))"

definition main :: "env \<Rightarrow> args \<Rightarrow> unit run" where
  "main E a =
     seq (emit GetRoot) (\<lambda>_.
     if get_root E = None then seq (emit (Error NotAGitRepo)) (\<lambda>_. return_code 1)
     else
       seq (call GetCurrentBranch (get_current_branch E)) (\<lambda>current_branch.
       if current_branch = Some ''upstream'' then
         seq (emit (Error InUpstreamBranch)) (\<lambda>_. return_code 1)
       else
         seq (call CreateTemporaryDirectory (create_temporary_directory E)) (\<lambda>tmp_dir.
         seq (call GetCwd (getcwd E)) (\<lambda>cwd.
         try_finally (import_upstream E cwd tmp_dir a) (restore E cwd tmp_dir current_branch)))))"

section \<open>Kinds of events\<close>

text \<open>A command that deletes a tag, in the clone or at its remote.\<close>

definition deletes_tag :: "event \<Rightarrow> bool" where
  "deletes_tag ev =
     (case ev of
        ExecuteCommand c \<Rightarrow> prefix ''git tag -d '' c \<or> prefix ''git push origin :refs/tags/'' c
      | _ \<Rightarrow> False)"

text \<open>The two pushes of the importer: all branches, and all tags.\<close>

definition pushes :: "event \<Rightarrow> bool" where
  "pushes ev = (ev = ExecuteCommand ''git push --all -f'' \<or> ev = ExecuteCommand ''git push --tags'')"

definition exports :: "event \<Rightarrow> bool" where
  "exports ev = (case ev of VcsExport t d v p \<Rightarrow> True | _ \<Rightarrow> False)"

text \<open>The discovery of manifests in the upstream tree.\<close>

definition inspects_tree :: "event \<Rightarrow> bool" where
  "inspects_tree ev = (case ev of FindPackages d \<Rightarrow> True | ParseStackFile p \<Rightarrow> True | _ \<Rightarrow> False)"

text \<open>Any \<^verbatim>\<open>git push\<close> command.\<close>

definition is_push :: "event \<Rightarrow> bool" where
  "is_push ev = (case ev of ExecuteCommand c \<Rightarrow> prefix ''git push'' c | _ \<Rightarrow> False)"

definition quiet :: "event \<Rightarrow> bool" where
  "quiet ev = (\<not> deletes_tag ev \<and> \<not> pushes ev \<and> \<not> exports ev \<and> \<not> inspects_tree ev
                \<and> \<not> is_push ev)"

definition keeps_refs :: "event \<Rightarrow> bool" where
  "keeps_refs ev = (\<not> deletes_tag ev \<and> \<not> pushes ev \<and> \<not> is_push ev)"

text \<open>Strict version syntax: what \<open>parse\<close> accepts.\<close>

definition is_strict :: "string \<Rightarrow> bool" where
  "is_strict s = (case parse s of Inl e \<Rightarrow> False | Inr v \<Rightarrow> True)"

section \<open>A helper that is not among the sources, and example runs\<close>

fun split_on :: "char \<Rightarrow> string \<Rightarrow> string list" where
  "split_on c [] = [[]]"
| "split_on c (x # xs) =
     (if x = c then [] # split_on c xs
      else (case split_on c xs of [] \<Rightarrow> [[x]] | y # ys \<Rightarrow> (x # y) # ys))"

text \<open>Modelled from the spec: \<open>bloom.util.segment_version\<close> is imported by
  \<^verbatim>\<open>import_upstream.py\<close> but is not among the sources. The spec describes its result
  as "a version derived by splitting the new version into major/minor/patch"; the model
  splits the string at its dots, as \<^verbatim>\<open>version.split('.')\<close> does.\<close>

definition segment_version_spec :: "string \<Rightarrow> exn + string list" where
  "segment_version_spec version = Inr (split_on CHR ''.'' version)"

text \<open>A git release repository with the branches \<open>bloom\<close>, \<open>master\<close> and
  \<open>upstream\<close>, no upstream branch configured, one package \<open>foo\<close> at version 1.0.0
  upstream, and the last tag \<open>upstream/1.0.0\<close>; every command works.\<close>

definition example_env :: env where
  "example_env =
     \<lparr>track_branches = (\<lambda>line. None),
      check_output = (\<lambda>line cmd.
        if line = 148 then Inr ''git://example.org/foo.git\<newline>''
        else if line = 150 then Inr ''git\<newline>''
        else if line = 153 then Inl CalledProcessError
        else Inr ''  bloom\<newline>* master\<newline>  upstream\<newline>''),
      execute_command = (\<lambda>line cmd. None),
      checkout = (\<lambda>line branch. None),
      path_exists = (\<lambda>line path. True),
      makedirs = (\<lambda>path. None),
      chdir = (\<lambda>line path. None),
      rmtree = (\<lambda>path. None),
      read_file = (\<lambda>path. []),
      vcs_checkout = (\<lambda>line url ver. True),
      export_repository = (\<lambda>ver path. True),
      catkin_pkg_installed = True,
      has_rospkg = True,
      find_packages = (\<lambda>dir. [(''foo'', \<lparr>pkg_name = ''foo'', pkg_version = ''1.0.0''\<rparr>)]),
      parse_stack_file = (\<lambda>path. (''foo'', Some ''1.0.0'')),
      get_last_tag_by_date = Inr ''upstream/1.0.0'',
      segment_version = segment_version_spec,
      get_versions_from_upstream_tag = (\<lambda>t.
        if t = ''upstream/1.0.0'' then Inr [''1'', ''0'', ''0'']
        else if t = ''upstream/2.0.0'' then Inr [''2'', ''0'', ''0'']
        else Inl (SystemExit 1)),
      has_replace = True,
      create_branch = None,
      import_orig = (\<lambda>path i m. Inr 0),
      get_root = Some ''/home/user/release'',
      get_current_branch = Inr (Some ''master''),
      create_temporary_directory = Inr ''/tmp/bloom'',
      getcwd = Inr ''/home/user/release'',
      branch_exists = (\<lambda>b. Inr True)\<rparr>"

definition example_args :: args where
  "example_args =
     \<lparr>upstream_devel = None, interactive = False, merge = False, replace = False,
      not_catkin = False, upstream_name = None, upstream_tag = None\<rparr>"

text \<open>The same repository with an svn upstream, no branch configured, version 2.1.0
  upstream and no prior tag; the tag is not found under \<open>tags/2.1.0\<close> (the checkout
  of line 335 fails) but under \<open>tags/foo-2.1.0\<close>.\<close>

definition svn_env :: env where
  "svn_env = example_env
     \<lparr>check_output := (\<lambda>line cmd.
        if line = 148 then Inr ''https://svn.example.org/foo\<newline>''
        else if line = 150 then Inr ''svn\<newline>''
        else if line = 153 then Inl CalledProcessError
        else Inr ''  bloom\<newline>* master\<newline>  upstream\<newline>''),
      vcs_checkout := (\<lambda>line url ver. line \<noteq> 335),
      find_packages := (\<lambda>dir. [(''foo'', \<lparr>pkg_name = ''foo'', pkg_version = ''2.1.0''\<rparr>)]),
      get_last_tag_by_date := Inr []\<rparr>"

text \<open>The example repository with other branches: at the validator the listing shows
  only a branch \<open>bloomer\<close>, at the importer the branches \<open>master\<close> and
  \<open>upstream-old\<close>.\<close>

definition bloomer_env :: env where
  "bloomer_env = example_env
     \<lparr>check_output := (\<lambda>line cmd.
        if line = 122 then Inr ''* bloomer\<newline>''
        else if line = 394 then Inr ''* master\<newline>  upstream-old\<newline>''
        else check_output example_env line cmd)\<rparr>"

section \<open>Sequencing\<close>

lemma seq_Inr: "m = (tr, Inr x) \<Longrightarrow> seq m f = (tr @ fst (f x), snd (f x))"
  by (simp add: seq_def split: prod.splits)

lemma seq_Inl: "m = (tr, Inl s) \<Longrightarrow> seq m f = (tr, Inl s)"
  by (simp add: seq_def)

section \<open>Which events a step can cause\<close>

lemma seq_all:
  assumes "list_all P (fst m)" and "\<And>x. list_all P (fst (f x))"
  shows "list_all P (fst (seq m f))"
proof (cases m)
  case (Pair tr r)
  show ?thesis
  proof (cases r)
    case (Inl s)
    with Pair assms show ?thesis by (simp add: seq_def)
  next
    case (Inr x)
    with Pair have "seq m f = (tr @ fst (f x), snd (f x))" by (simp add: seq_Inr)
    with Pair assms(1) assms(2)[of x] show ?thesis by simp
  qed
qed

lemma except_all:
  "list_all P (fst m) \<Longrightarrow> list_all P (fst h) \<Longrightarrow> list_all P (fst (except_CalledProcessError m h))"
  by (auto simp: except_CalledProcessError_def split: prod.splits sum.splits stop.splits exn.splits)

lemma all_basic [simp]:
  "list_all P (fst (emit ev)) = P ev"
  "list_all P (fst (continue x))"
  "list_all P (fst (return_code n))"
  "list_all P (fst (raise e))"
  "list_all P (fst (sys_exit n))"
  "list_all P (fst (lift r))"
  "list_all P (fst (call ev r)) = P ev"
  "list_all P (fst (call_unit ev u)) = P ev"
  "list_all P (fst (exec E l c)) = P (ExecuteCommand c)"
  "list_all P (fst (git_checkout E l b)) = P (GitCheckout b)"
  "list_all P (fst (os_path_exists E l p)) = P (PathExists p)"
  by (auto simp: emit_def continue_def return_code_def raise_def sys_exit_def lift_def call_def
      call_unit_def exec_def git_checkout_def os_path_exists_def split: sum.splits)

lemma quiet_simps [simp]:
  "quiet (TrackBranches bs)" "quiet (MakeDirs d)" "quiet (Chdir d)" "quiet (VcsCheckout t d u v)"
  "quiet (CheckOutput c)" "quiet (GitCheckout b)" "quiet (PathExists p)" "quiet (ReadFile p)"
  "quiet (WriteFile p c)" "quiet (Warning m)" "quiet (Error m)" "quiet PrintExc"
  "quiet GetLastTagByDate" "quiet (VcsUpdate t d v)" "quiet (ImportOrig p i mg)"
  "quiet (CreateBranch b o1 o2)"
  by (simp_all add: quiet_def deletes_tag_def pushes_def exports_def inspects_tree_def is_push_def)

lemma convert_quiet: "list_all quiet (fst (convert_catkin_to_bloom E cwd))"
  unfolding convert_catkin_to_bloom_def Let_def
  by (auto intro!: seq_all
      simp: quiet_def deletes_tag_def pushes_def exports_def inspects_tree_def is_push_def)

lemma not_a_bloom_quiet: "list_all quiet (fst not_a_bloom_release_repo)"
  unfolding not_a_bloom_release_repo_def by (auto intro!: seq_all)

lemma check_for_bloom_quiet: "list_all quiet (fst (check_for_bloom E cwd))"
  unfolding check_for_bloom_def Let_def
  by (auto intro!: seq_all except_all simp: convert_quiet not_a_bloom_quiet)

lemma parse_bloom_conf_quiet: "list_all quiet (fst (parse_bloom_conf E))"
  unfolding parse_bloom_conf_def Let_def
  by (auto intro!: seq_all except_all)

lemma clone_quiet: "list_all quiet (fst (clone_release_repo E cwd tmp_dir))"
  unfolding clone_release_repo_def Let_def
  by (auto intro!: seq_all)

lemma checkout_upstream_quiet: "list_all quiet (fst (checkout_upstream E tmp_dir a r t b))"
  unfolding checkout_upstream_def Let_def
  by (auto intro!: seq_all split: option.splits)

lemma fetch_quiet: "list_all quiet (fst (fetch E cwd tmp_dir a))"
  unfolding fetch_def
  by (auto intro!: seq_all simp: clone_quiet check_for_bloom_quiet parse_bloom_conf_quiet
      checkout_upstream_quiet split: prod.splits)


lemma keeps_refs_simps [simp]:
  "keeps_refs (VcsCheckout t d u v)" "keeps_refs (VcsExport t d v p)"
  "keeps_refs (PathExists p)" "keeps_refs (FindPackages d)" "keeps_refs (ParseStackFile p)"
  "keeps_refs (Warning m)" "keeps_refs (Error m)" "keeps_refs PrintExc"
  by (simp_all add: keeps_refs_def deletes_tag_def pushes_def is_push_def)

lemma all_weaken: "list_all P xs \<Longrightarrow> (\<And>x. P x \<Longrightarrow> Q x) \<Longrightarrow> list_all Q xs"
  by (auto simp: list_all_iff)

lemma get_upstream_meta_events: "list_all keeps_refs (fst (get_upstream_meta E d))"
  unfolding get_upstream_meta_def Let_def
  by (auto intro!: seq_all split: sum.splits)

lemma resolve_meta_events: "list_all keeps_refs (fst (resolve_meta E a d))"
  unfolding resolve_meta_def
  by (auto intro!: seq_all simp: get_upstream_meta_events split: option.splits)

lemma name_and_version_events: "fst (name_and_version m) = []"
  by (simp add: name_and_version_def raise_def continue_def split: option.splits meta_name.splits list.splits)

lemma export_tarball_events: "list_all keeps_refs (fst (export_tarball E tmp_dir r t n v))"
  unfolding export_tarball_def Let_def
  by (auto intro!: seq_all split: prod.splits)

lemma resolve_and_export_events: "list_all keeps_refs (fst (resolve_and_export E tmp_dir a r t))"
  unfolding resolve_and_export_def
  by (auto intro!: seq_all simp: resolve_meta_events name_and_version_events export_tarball_events
      split: prod.splits)

lemma unpack3_events: "fst (unpack3 xs) = []"
  by (simp add: unpack3_def raise_def continue_def split: list.splits)

lemma version_guard_events: "list_all (\<lambda>ev. \<not> pushes ev) (fst (version_guard E a v))"
  unfolding version_guard_def Let_def
  by (auto intro!: seq_all simp: unpack3_events pushes_def split: prod.splits)

lemma importer_events: "list_all (\<lambda>ev. \<not> deletes_tag ev) (fst (importer E a d p))"
  unfolding importer_def create_initial_upstream_branch_def
  by (auto intro!: seq_all simp: deletes_tag_def)

lemma import_upstream_reached:
  assumes "fetch E cwd tmp_dir a = (tr1, Inr (clone_dir, upstream_repo, upstream_type))"
    and "resolve_and_export E tmp_dir a upstream_repo upstream_type = (tr2, Inr (version, tarball_path))"
  shows "import_upstream E cwd tmp_dir a =
           (tr1 @ tr2 @ fst (seq (version_guard E a version) (\<lambda>gbp. importer E a clone_dir tarball_path)),
            snd (seq (version_guard E a version) (\<lambda>gbp. importer E a clone_dir tarball_path)))"
  using assms by (simp add: import_upstream_def seq_Inr)

lemma version_guard_tagged:
  assumes "get_last_tag_by_date E = Inr last_tag" and "last_tag \<noteq> []"
    and "get_versions_from_upstream_tag E last_tag = Inr [x, y, z]"
    and "StrictVersion version = Inr (Some new)"
    and "StrictVersion (join ''.'' [x, y, z]) = Inr (Some old)"
  shows "version_guard E a version =
     (let regressed = (if version_cmp new old < 0
                       then [Warning (VersionRegressed version (join ''.'' [x, y, z]))] else []);
          c1 = ''git tag -d '' @ last_tag;
          c2 = ''git push origin :refs/tags/'' @ last_tag
      in
      if version_cmp new old \<le> 0 then
        if replace a then
          if \<not> has_replace E then
            (GetLastTagByDate # regressed @ [Error ReplaceNotSupported], Inl (Return 1))
          else
            (case execute_command E 382 c1 of
               Some e \<Rightarrow>
                 (GetLastTagByDate # regressed @
                    [Warning (RemovingConflictingTag version), ExecuteCommand c1], Inl (Raise e))
             | None \<Rightarrow>
                 (GetLastTagByDate # regressed @
                    [Warning (RemovingConflictingTag version), ExecuteCommand c1, ExecuteCommand c2],
                  case execute_command E 383 c2 of
                    Some e \<Rightarrow> Inl (Raise e)
                  | None \<Rightarrow> Inr (x, y, z)))
        else (GetLastTagByDate # regressed @ [Warning (EqualToPrevious version)], Inr (x, y, z))
      else (GetLastTagByDate # regressed, Inr (x, y, z)))"
  using assms
  by (simp add: version_guard_def Let_def seq_def call_def lift_def continue_def raise_def
      unpack3_def emit_def return_code_def exec_def call_unit_def version_less_def version_le_def
      compare_objects_def
      split: option.splits)


section \<open>The version guard\<close>

text \<open>C1. A run that reaches the version guard with a prior tag, a new version equal to
  the version of that tag, and \<^verbatim>\<open>--replace\<close>: when git-buildpackage can replace, the
  guard issues the deletion of the tag in the clone, then (once that command has
  returned) the deletion at the remote, and once both have returned the run goes on with
  the importer; when it cannot, the run returns 1, and no command that deletes a tag has
  been issued in the whole run.\<close>

theorem replace_at_equal_version:
  assumes reach1: "fetch E cwd tmp_dir a = (tr1, Inr (clone_dir, upstream_repo, upstream_type))"
    and reach2: "resolve_and_export E tmp_dir a upstream_repo upstream_type
                   = (tr2, Inr (version, tarball_path))"
    and tag: "get_last_tag_by_date E = Inr last_tag" "last_tag \<noteq> []"
    and segs: "get_versions_from_upstream_tag E last_tag = Inr [gbp_major, gbp_minor, gbp_patch]"
    and new: "StrictVersion version = Inr (Some new)"
    and old: "StrictVersion (join ''.'' [gbp_major, gbp_minor, gbp_patch]) = Inr (Some old)"
    and equal: "version_cmp new old = 0"
    and flag: "replace a"
  shows "(has_replace E \<longrightarrow>
            prefix (tr1 @ tr2 @ [GetLastTagByDate, Warning (RemovingConflictingTag version),
                                 ExecuteCommand (''git tag -d '' @ last_tag)])
              (fst (import_upstream E cwd tmp_dir a))
          \<and> (execute_command E 382 (''git tag -d '' @ last_tag) = None \<longrightarrow>
               prefix (tr1 @ tr2 @ [GetLastTagByDate, Warning (RemovingConflictingTag version),
                                    ExecuteCommand (''git tag -d '' @ last_tag),
                                    ExecuteCommand (''git push origin :refs/tags/'' @ last_tag)])
                 (fst (import_upstream E cwd tmp_dir a)))
          \<and> (execute_command E 382 (''git tag -d '' @ last_tag) = None
               \<and> execute_command E 383 (''git push origin :refs/tags/'' @ last_tag) = None \<longrightarrow>
               import_upstream E cwd tmp_dir a =
                 (tr1 @ tr2 @ [GetLastTagByDate, Warning (RemovingConflictingTag version),
                               ExecuteCommand (''git tag -d '' @ last_tag),
                               ExecuteCommand (''git push origin :refs/tags/'' @ last_tag)]
                    @ fst (importer E a clone_dir tarball_path),
                  snd (importer E a clone_dir tarball_path))))
       \<and> (\<not> has_replace E \<longrightarrow>
            import_upstream E cwd tmp_dir a
              = (tr1 @ tr2 @ [GetLastTagByDate, Error ReplaceNotSupported], Inl (Return 1))
          \<and> list_all (\<lambda>ev. \<not> deletes_tag ev) (fst (import_upstream E cwd tmp_dir a)))"
proof -
  let ?c1 = "''git tag -d '' @ last_tag"
  let ?c2 = "''git push origin :refs/tags/'' @ last_tag"
  let ?head = "[GetLastTagByDate, Warning (RemovingConflictingTag version), ExecuteCommand ?c1]"
  note guard = version_guard_tagged [OF tag segs new old, of a]
  note run = import_upstream_reached [OF reach1 reach2]
  have supported: "has_replace E \<Longrightarrow> \<exists>rest r. version_guard E a version = (?head @ rest, r)"
    using guard equal flag by (auto simp: Let_def split: option.splits)
  have A: "prefix (tr1 @ tr2 @ ?head) (fst (import_upstream E cwd tmp_dir a))" if "has_replace E"
  proof -
    from supported [OF that] obtain rest r where g: "version_guard E a version = (?head @ rest, r)"
      by blast
    show ?thesis
      by (cases r) (simp_all add: run g seq_def split: prod.splits)
  qed
  have B: "prefix (tr1 @ tr2 @ ?head @ [ExecuteCommand ?c2]) (fst (import_upstream E cwd tmp_dir a))"
    if "has_replace E" "execute_command E 382 ?c1 = None"
  proof -
    from guard equal flag that
    have "\<exists>r. version_guard E a version = (?head @ [ExecuteCommand ?c2], r)"
      by (auto simp: Let_def split: option.splits)
    then obtain r where g: "version_guard E a version = (?head @ [ExecuteCommand ?c2], r)" by blast
    show ?thesis
      by (cases r) (simp_all add: run g seq_def split: prod.splits)
  qed
  have C: "import_upstream E cwd tmp_dir a =
             (tr1 @ tr2 @ ?head @ [ExecuteCommand ?c2] @ fst (importer E a clone_dir tarball_path),
              snd (importer E a clone_dir tarball_path))"
    if "has_replace E" "execute_command E 382 ?c1 = None" "execute_command E 383 ?c2 = None"
  proof -
    from guard equal flag that
    have "version_guard E a version
            = (?head @ [ExecuteCommand ?c2], Inr (gbp_major, gbp_minor, gbp_patch))"
      by (simp add: Let_def)
    then show ?thesis by (simp add: run seq_Inr)
  qed
  have D: "import_upstream E cwd tmp_dir a
             = (tr1 @ tr2 @ [GetLastTagByDate, Error ReplaceNotSupported], Inl (Return 1))"
    if "\<not> has_replace E"
  proof -
    from guard equal flag that
    have "version_guard E a version = ([GetLastTagByDate, Error ReplaceNotSupported], Inl (Return 1))"
      by (simp add: Let_def)
    then show ?thesis by (simp add: run seq_Inl)
  qed
  have nodel: "list_all (\<lambda>ev. \<not> deletes_tag ev) (fst (import_upstream E cwd tmp_dir a))"
    if "\<not> has_replace E"
  proof -
    have "list_all (\<lambda>ev. \<not> deletes_tag ev) tr1"
      using fetch_quiet [of E cwd tmp_dir a] reach1 by (auto simp: quiet_def elim: all_weaken)
    moreover have "list_all (\<lambda>ev. \<not> deletes_tag ev) tr2"
      using resolve_and_export_events [of E tmp_dir a upstream_repo upstream_type] reach2
      by (auto simp: keeps_refs_def elim: all_weaken)
    ultimately show ?thesis by (simp add: D [OF that] deletes_tag_def)
  qed
  from A B C D nodel show ?thesis by simp
qed


text \<open>The example run with \<^verbatim>\<open>--replace\<close>, once with and once without support for
  replacement in git-buildpackage.\<close>

theorem replace_at_equal_version_witness:
  "has_replace example_env
   \<and> import_upstream example_env ''/home/user/release'' ''/tmp/bloom'' (example_args\<lparr>replace := True\<rparr>)
       = (fst (fetch example_env ''/home/user/release'' ''/tmp/bloom'' (example_args\<lparr>replace := True\<rparr>))
          @ fst (resolve_and_export example_env ''/tmp/bloom'' (example_args\<lparr>replace := True\<rparr>)
                   ''git://example.org/foo.git'' ''git'')
          @ [GetLastTagByDate, Warning (RemovingConflictingTag ''1.0.0''),
             ExecuteCommand ''git tag -d upstream/1.0.0'',
             ExecuteCommand ''git push origin :refs/tags/upstream/1.0.0'']
          @ fst (importer example_env (example_args\<lparr>replace := True\<rparr>) ''/tmp/bloom/bloom_clone''
                   ''/tmp/bloom/upstream-1.0.0''),
          snd (importer example_env (example_args\<lparr>replace := True\<rparr>) ''/tmp/bloom/bloom_clone''
                   ''/tmp/bloom/upstream-1.0.0''))
   \<and> \<not> has_replace (example_env\<lparr>has_replace := False\<rparr>)
   \<and> snd (import_upstream (example_env\<lparr>has_replace := False\<rparr>) ''/home/user/release'' ''/tmp/bloom''
            (example_args\<lparr>replace := True\<rparr>)) = Inl (Return 1)"
proof -
  let ?a = "example_args\<lparr>replace := True\<rparr>"
  let ?E' = "example_env\<lparr>has_replace := False\<rparr>"
  have f: "snd (fetch example_env ''/home/user/release'' ''/tmp/bloom'' ?a)
             = Inr (''/tmp/bloom/bloom_clone'', ''git://example.org/foo.git'', ''git'')"
    by code_simp
  have r: "snd (resolve_and_export example_env ''/tmp/bloom'' ?a ''git://example.org/foo.git'' ''git'')
             = Inr (''1.0.0'', ''/tmp/bloom/upstream-1.0.0'')"
    by code_simp
  have f': "snd (fetch ?E' ''/home/user/release'' ''/tmp/bloom'' ?a)
             = Inr (''/tmp/bloom/bloom_clone'', ''git://example.org/foo.git'', ''git'')"
    by code_simp
  have r': "snd (resolve_and_export ?E' ''/tmp/bloom'' ?a ''git://example.org/foo.git'' ''git'')
             = Inr (''1.0.0'', ''/tmp/bloom/upstream-1.0.0'')"
    by code_simp
  have t: "get_last_tag_by_date example_env = Inr ''upstream/1.0.0''"
    and t': "get_last_tag_by_date ?E' = Inr ''upstream/1.0.0''"
    and s: "get_versions_from_upstream_tag example_env ''upstream/1.0.0'' = Inr [''1'', ''0'', ''0'']"
    and s': "get_versions_from_upstream_tag ?E' ''upstream/1.0.0'' = Inr [''1'', ''0'', ''0'']"
    by (simp_all add: example_env_def)
  have n: "StrictVersion ''1.0.0'' = Inr (Some ((1, 0, 0), None))"
    and o: "StrictVersion (join ''.'' [''1'', ''0'', ''0'']) = Inr (Some ((1, 0, 0), None))"
    and c: "version_cmp ((1, 0, 0), None) ((1, 0, 0), None) = 0"
    and fl: "replace ?a"
    and h: "has_replace example_env" "\<not> has_replace ?E'"
    and x: "execute_command example_env 382 (''git tag -d '' @ ''upstream/1.0.0'') = None"
           "execute_command example_env 383 (''git push origin :refs/tags/'' @ ''upstream/1.0.0'') = None"
    by code_simp+
  have ne: "''upstream/1.0.0'' \<noteq> []" by simp
  note yes = replace_at_equal_version [OF _ _ t ne s n o c fl]
  note no = replace_at_equal_version [OF _ _ t' ne s' n o c fl]
  from f have f1: "fetch example_env ''/home/user/release'' ''/tmp/bloom'' ?a
      = (fst (fetch example_env ''/home/user/release'' ''/tmp/bloom'' ?a),
         Inr (''/tmp/bloom/bloom_clone'', ''git://example.org/foo.git'', ''git''))"
    by (simp add: prod_eq_iff)
  from r have r1: "resolve_and_export example_env ''/tmp/bloom'' ?a ''git://example.org/foo.git'' ''git''
      = (fst (resolve_and_export example_env ''/tmp/bloom'' ?a ''git://example.org/foo.git'' ''git''),
         Inr (''1.0.0'', ''/tmp/bloom/upstream-1.0.0''))"
    by (simp add: prod_eq_iff)
  from f' have f2: "fetch ?E' ''/home/user/release'' ''/tmp/bloom'' ?a
      = (fst (fetch ?E' ''/home/user/release'' ''/tmp/bloom'' ?a),
         Inr (''/tmp/bloom/bloom_clone'', ''git://example.org/foo.git'', ''git''))"
    by (simp add: prod_eq_iff)
  from r' have r2: "resolve_and_export ?E' ''/tmp/bloom'' ?a ''git://example.org/foo.git'' ''git''
      = (fst (resolve_and_export ?E' ''/tmp/bloom'' ?a ''git://example.org/foo.git'' ''git''),
         Inr (''1.0.0'', ''/tmp/bloom/upstream-1.0.0''))"
    by (simp add: prod_eq_iff)
  from yes [OF f1 r1] h x
  have 1: "import_upstream example_env ''/home/user/release'' ''/tmp/bloom'' ?a
       = (fst (fetch example_env ''/home/user/release'' ''/tmp/bloom'' ?a)
          @ fst (resolve_and_export example_env ''/tmp/bloom'' ?a ''git://example.org/foo.git'' ''git'')
          @ [GetLastTagByDate, Warning (RemovingConflictingTag ''1.0.0''),
             ExecuteCommand ''git tag -d upstream/1.0.0'',
             ExecuteCommand ''git push origin :refs/tags/upstream/1.0.0'']
          @ fst (importer example_env ?a ''/tmp/bloom/bloom_clone'' ''/tmp/bloom/upstream-1.0.0''),
          snd (importer example_env ?a ''/tmp/bloom/bloom_clone'' ''/tmp/bloom/upstream-1.0.0''))"
    by simp
  from no [OF f2 r2] h
  have 2: "snd (import_upstream ?E' ''/home/user/release'' ''/tmp/bloom'' ?a) = Inl (Return 1)"
    by simp
  from 1 2 h show ?thesis by simp
qed

lemma reached: "snd m = Inr x \<Longrightarrow> m = (fst m, Inr x)"
  by (simp add: prod_eq_iff)

text \<open>C2, as the code has it. A run that reaches the version guard with a prior tag and a
  new version strictly below the version of that tag always emits the regression warning.
  Without \<^verbatim>\<open>--replace\<close> the warning about an equal version follows, the run goes on
  with the importer, and no command of the whole run deletes a tag. With
  \<^verbatim>\<open>--replace\<close> the run takes the same path as for equal versions: it returns 1 when
  git-buildpackage cannot replace; otherwise it issues the deletion of the last tag in the
  clone, then (once that command has returned) the deletion at the remote, and once both
  have returned it goes on with the importer.\<close>

theorem regression_warns:
  assumes reach1: "fetch E cwd tmp_dir a = (tr1, Inr (clone_dir, upstream_repo, upstream_type))"
    and reach2: "resolve_and_export E tmp_dir a upstream_repo upstream_type
                   = (tr2, Inr (version, tarball_path))"
    and tag: "get_last_tag_by_date E = Inr last_tag" "last_tag \<noteq> []"
    and segs: "get_versions_from_upstream_tag E last_tag = Inr [gbp_major, gbp_minor, gbp_patch]"
    and new: "StrictVersion version = Inr (Some new)"
    and old: "StrictVersion (join ''.'' [gbp_major, gbp_minor, gbp_patch]) = Inr (Some old)"
    and less: "version_less new old"
  shows "prefix (tr1 @ tr2 @ [GetLastTagByDate,
                   Warning (VersionRegressed version (join ''.'' [gbp_major, gbp_minor, gbp_patch]))])
           (fst (import_upstream E cwd tmp_dir a))
       \<and> (\<not> replace a \<longrightarrow>
            import_upstream E cwd tmp_dir a =
              (tr1 @ tr2 @ [GetLastTagByDate,
                   Warning (VersionRegressed version (join ''.'' [gbp_major, gbp_minor, gbp_patch])),
                   Warning (EqualToPrevious version)]
                 @ fst (importer E a clone_dir tarball_path),
               snd (importer E a clone_dir tarball_path))
          \<and> list_all (\<lambda>ev. \<not> deletes_tag ev) (fst (import_upstream E cwd tmp_dir a)))
       \<and> (replace a \<and> \<not> has_replace E \<longrightarrow>
            import_upstream E cwd tmp_dir a =
              (tr1 @ tr2 @ [GetLastTagByDate,
                   Warning (VersionRegressed version (join ''.'' [gbp_major, gbp_minor, gbp_patch])),
                   Error ReplaceNotSupported],
               Inl (Return 1)))
       \<and> (replace a \<and> has_replace E \<longrightarrow>
            prefix (tr1 @ tr2 @ [GetLastTagByDate,
                   Warning (VersionRegressed version (join ''.'' [gbp_major, gbp_minor, gbp_patch])),
                   Warning (RemovingConflictingTag version),
                   ExecuteCommand (''git tag -d '' @ last_tag)])
              (fst (import_upstream E cwd tmp_dir a))
          \<and> (execute_command E 382 (''git tag -d '' @ last_tag) = None \<longrightarrow>
               prefix (tr1 @ tr2 @ [GetLastTagByDate,
                      Warning (VersionRegressed version (join ''.'' [gbp_major, gbp_minor, gbp_patch])),
                      Warning (RemovingConflictingTag version),
                      ExecuteCommand (''git tag -d '' @ last_tag),
                      ExecuteCommand (''git push origin :refs/tags/'' @ last_tag)])
                 (fst (import_upstream E cwd tmp_dir a)))
          \<and> (execute_command E 382 (''git tag -d '' @ last_tag) = None
               \<and> execute_command E 383 (''git push origin :refs/tags/'' @ last_tag) = None \<longrightarrow>
               import_upstream E cwd tmp_dir a =
                 (tr1 @ tr2 @ [GetLastTagByDate,
                      Warning (VersionRegressed version (join ''.'' [gbp_major, gbp_minor, gbp_patch])),
                      Warning (RemovingConflictingTag version),
                      ExecuteCommand (''git tag -d '' @ last_tag),
                      ExecuteCommand (''git push origin :refs/tags/'' @ last_tag)]
                    @ fst (importer E a clone_dir tarball_path),
                  snd (importer E a clone_dir tarball_path))))"
proof -
  let ?w = "Warning (VersionRegressed version (join ''.'' [gbp_major, gbp_minor, gbp_patch]))"
  let ?c1 = "''git tag -d '' @ last_tag"
  let ?c2 = "''git push origin :refs/tags/'' @ last_tag"
  note guard = version_guard_tagged [OF tag segs new old, of a]
  note run = import_upstream_reached [OF reach1 reach2]
  from less have cmp: "version_cmp new old < 0" "version_cmp new old \<le> 0"
    by (simp_all add: version_less_def)
  have "\<exists>rest r. version_guard E a version = ([GetLastTagByDate, ?w] @ rest, r)"
    using guard cmp by (auto simp: Let_def split: option.splits)
  then obtain rest r where g: "version_guard E a version = ([GetLastTagByDate, ?w] @ rest, r)"
    by blast
  have warned: "prefix (tr1 @ tr2 @ [GetLastTagByDate, ?w]) (fst (import_upstream E cwd tmp_dir a))"
    by (cases r) (simp_all add: run g seq_def split: prod.splits)
  have plain: "import_upstream E cwd tmp_dir a =
              (tr1 @ tr2 @ [GetLastTagByDate, ?w, Warning (EqualToPrevious version)]
                 @ fst (importer E a clone_dir tarball_path),
               snd (importer E a clone_dir tarball_path))" if "\<not> replace a"
  proof -
    from guard cmp that
    have "version_guard E a version
            = ([GetLastTagByDate, ?w, Warning (EqualToPrevious version)],
               Inr (gbp_major, gbp_minor, gbp_patch))"
      by (simp add: Let_def)
    then show ?thesis by (simp add: run seq_Inr)
  qed
  have kept: "list_all (\<lambda>ev. \<not> deletes_tag ev) (fst (import_upstream E cwd tmp_dir a))"
    if "\<not> replace a"
  proof -
    have "list_all (\<lambda>ev. \<not> deletes_tag ev) tr1"
      using fetch_quiet [of E cwd tmp_dir a] reach1 by (auto simp: quiet_def elim: all_weaken)
    moreover have "list_all (\<lambda>ev. \<not> deletes_tag ev) tr2"
      using resolve_and_export_events [of E tmp_dir a upstream_repo upstream_type] reach2
      by (auto simp: keeps_refs_def elim: all_weaken)
    ultimately show ?thesis
      using importer_events [of E a clone_dir tarball_path]
      by (simp add: plain [OF that] deletes_tag_def)
  qed
  have fatal: "import_upstream E cwd tmp_dir a =
              (tr1 @ tr2 @ [GetLastTagByDate, ?w, Error ReplaceNotSupported], Inl (Return 1))"
    if "replace a" "\<not> has_replace E"
  proof -
    from guard cmp that
    have "version_guard E a version
            = ([GetLastTagByDate, ?w, Error ReplaceNotSupported], Inl (Return 1))"
      by (simp add: Let_def)
    then show ?thesis by (simp add: run seq_Inl)
  qed
  have deleted: "prefix (tr1 @ tr2 @ [GetLastTagByDate, ?w, Warning (RemovingConflictingTag version),
                   ExecuteCommand ?c1]) (fst (import_upstream E cwd tmp_dir a))"
    if "replace a" "has_replace E"
  proof -
    from guard cmp that
    have "\<exists>rest r. version_guard E a version
            = ([GetLastTagByDate, ?w, Warning (RemovingConflictingTag version), ExecuteCommand ?c1]
                 @ rest, r)"
      by (auto simp: Let_def split: option.splits)
    then obtain rest' r' where g': "version_guard E a version
            = ([GetLastTagByDate, ?w, Warning (RemovingConflictingTag version), ExecuteCommand ?c1]
                 @ rest', r')" by blast
    show ?thesis
      by (cases r') (simp_all add: run g' seq_def split: prod.splits)
  qed
  have remote: "prefix (tr1 @ tr2 @ [GetLastTagByDate, ?w, Warning (RemovingConflictingTag version),
                   ExecuteCommand ?c1, ExecuteCommand ?c2]) (fst (import_upstream E cwd tmp_dir a))"
    if "replace a" "has_replace E" "execute_command E 382 ?c1 = None"
  proof -
    from guard cmp that
    have "\<exists>r. version_guard E a version
            = ([GetLastTagByDate, ?w, Warning (RemovingConflictingTag version), ExecuteCommand ?c1,
                ExecuteCommand ?c2], r)"
      by (auto simp: Let_def split: option.splits)
    then obtain r' where g': "version_guard E a version
            = ([GetLastTagByDate, ?w, Warning (RemovingConflictingTag version), ExecuteCommand ?c1,
                ExecuteCommand ?c2], r')" by blast
    show ?thesis
      by (cases r') (simp_all add: run g' seq_def split: prod.splits)
  qed
  have onward: "import_upstream E cwd tmp_dir a =
                 (tr1 @ tr2 @ [GetLastTagByDate, ?w, Warning (RemovingConflictingTag version),
                      ExecuteCommand ?c1, ExecuteCommand ?c2]
                    @ fst (importer E a clone_dir tarball_path),
                  snd (importer E a clone_dir tarball_path))"
    if "replace a" "has_replace E" "execute_command E 382 ?c1 = None"
       "execute_command E 383 ?c2 = None"
  proof -
    from guard cmp that
    have "version_guard E a version
            = ([GetLastTagByDate, ?w, Warning (RemovingConflictingTag version), ExecuteCommand ?c1,
                ExecuteCommand ?c2], Inr (gbp_major, gbp_minor, gbp_patch))"
      by (simp add: Let_def)
    then show ?thesis by (simp add: run seq_Inr)
  qed
  from warned plain kept fatal deleted remote onward show ?thesis by simp
qed


text \<open>The example run with the last tag at 2.0.0, without and with \<^verbatim>\<open>--replace\<close>.\<close>

theorem regression_warns_witness:
  "version_less ((1, 0, 0), None) ((2, 0, 0), None)
   \<and> \<not> replace example_args
   \<and> Warning (VersionRegressed ''1.0.0'' ''2.0.0'')
       \<in> set (fst (import_upstream (example_env\<lparr>get_last_tag_by_date := Inr ''upstream/2.0.0''\<rparr>)
                     ''/home/user/release'' ''/tmp/bloom'' example_args))
   \<and> list_all (\<lambda>ev. \<not> deletes_tag ev)
        (fst (import_upstream (example_env\<lparr>get_last_tag_by_date := Inr ''upstream/2.0.0''\<rparr>)
                ''/home/user/release'' ''/tmp/bloom'' example_args))
   \<and> snd (import_upstream (example_env\<lparr>get_last_tag_by_date := Inr ''upstream/2.0.0''\<rparr>)
                ''/home/user/release'' ''/tmp/bloom'' example_args) = Inr ()
   \<and> import_upstream (example_env\<lparr>get_last_tag_by_date := Inr ''upstream/2.0.0''\<rparr>)
        ''/home/user/release'' ''/tmp/bloom'' (example_args\<lparr>replace := True\<rparr>)
       = (fst (fetch (example_env\<lparr>get_last_tag_by_date := Inr ''upstream/2.0.0''\<rparr>)
                 ''/home/user/release'' ''/tmp/bloom'' (example_args\<lparr>replace := True\<rparr>))
          @ fst (resolve_and_export (example_env\<lparr>get_last_tag_by_date := Inr ''upstream/2.0.0''\<rparr>)
                   ''/tmp/bloom'' (example_args\<lparr>replace := True\<rparr>)
                   ''git://example.org/foo.git'' ''git'')
          @ [GetLastTagByDate, Warning (VersionRegressed ''1.0.0'' ''2.0.0''),
             Warning (RemovingConflictingTag ''1.0.0''),
             ExecuteCommand ''git tag -d upstream/2.0.0'',
             ExecuteCommand ''git push origin :refs/tags/upstream/2.0.0'']
          @ fst (importer (example_env\<lparr>get_last_tag_by_date := Inr ''upstream/2.0.0''\<rparr>)
                   (example_args\<lparr>replace := True\<rparr>) ''/tmp/bloom/bloom_clone''
                   ''/tmp/bloom/upstream-1.0.0''),
          snd (importer (example_env\<lparr>get_last_tag_by_date := Inr ''upstream/2.0.0''\<rparr>)
                   (example_args\<lparr>replace := True\<rparr>) ''/tmp/bloom/bloom_clone''
                   ''/tmp/bloom/upstream-1.0.0''))"
proof -
  let ?a = "example_args\<lparr>replace := True\<rparr>"
  let ?E = "example_env\<lparr>get_last_tag_by_date := Inr ''upstream/2.0.0''\<rparr>"
  have f: "snd (fetch ?E ''/home/user/release'' ''/tmp/bloom'' example_args)
             = Inr (''/tmp/bloom/bloom_clone'', ''git://example.org/foo.git'', ''git'')"
    by code_simp
  have r: "snd (resolve_and_export ?E ''/tmp/bloom'' example_args ''git://example.org/foo.git'' ''git'')
             = Inr (''1.0.0'', ''/tmp/bloom/upstream-1.0.0'')"
    by code_simp
  have t: "get_last_tag_by_date ?E = Inr ''upstream/2.0.0''"
    and s: "get_versions_from_upstream_tag ?E ''upstream/2.0.0'' = Inr [''2'', ''0'', ''0'']"
    by (simp_all add: example_env_def)
  have n: "StrictVersion ''1.0.0'' = Inr (Some ((1, 0, 0), None))"
    and o: "StrictVersion (join ''.'' [''2'', ''0'', ''0'']) = Inr (Some ((2, 0, 0), None))"
    and l: "version_less ((1, 0, 0), None) ((2, 0, 0), None)"
    and fl: "\<not> replace example_args"
    and i: "snd (importer ?E example_args ''/tmp/bloom/bloom_clone'' ''/tmp/bloom/upstream-1.0.0'') = Inr ()"
    by code_simp+
  have ne: "''upstream/2.0.0'' \<noteq> []" by simp
  note applied = regression_warns [OF reached [OF f] reached [OF r] t ne s n o l]
  from applied have "set (fst (fetch ?E ''/home/user/release'' ''/tmp/bloom'' example_args)
                      @ fst (resolve_and_export ?E ''/tmp/bloom'' example_args
                               ''git://example.org/foo.git'' ''git'')
                      @ [GetLastTagByDate, Warning (VersionRegressed ''1.0.0'' ''2.0.0'')])
                 \<subseteq> set (fst (import_upstream ?E ''/home/user/release'' ''/tmp/bloom'' example_args))"
    by (intro set_mono_prefix) simp
  then have warned: "Warning (VersionRegressed ''1.0.0'' ''2.0.0'')
                 \<in> set (fst (import_upstream ?E ''/home/user/release'' ''/tmp/bloom'' example_args))"
    by auto
  from applied fl
  have kept: "list_all (\<lambda>ev. \<not> deletes_tag ev)
                (fst (import_upstream ?E ''/home/user/release'' ''/tmp/bloom'' example_args))"
    by blast
  from applied fl
  have "snd (import_upstream ?E ''/home/user/release'' ''/tmp/bloom'' example_args)
          = snd (importer ?E example_args ''/tmp/bloom/bloom_clone'' ''/tmp/bloom/upstream-1.0.0'')"
    by simp
  with i have succeeded: "snd (import_upstream ?E ''/home/user/release'' ''/tmp/bloom'' example_args) = Inr ()"
    by simp
  have f': "snd (fetch ?E ''/home/user/release'' ''/tmp/bloom'' ?a)
             = Inr (''/tmp/bloom/bloom_clone'', ''git://example.org/foo.git'', ''git'')"
    by code_simp
  have r': "snd (resolve_and_export ?E ''/tmp/bloom'' ?a ''git://example.org/foo.git'' ''git'')
             = Inr (''1.0.0'', ''/tmp/bloom/upstream-1.0.0'')"
    by code_simp
  have fl': "replace ?a" and h: "has_replace ?E"
    and x: "execute_command ?E 382 (''git tag -d '' @ ''upstream/2.0.0'') = None"
           "execute_command ?E 383 (''git push origin :refs/tags/'' @ ''upstream/2.0.0'') = None"
    by code_simp+
  note replaced = regression_warns [OF reached [OF f'] reached [OF r'] t ne s n o l]
  from replaced fl' h x
  have onward: "import_upstream ?E ''/home/user/release'' ''/tmp/bloom'' ?a
       = (fst (fetch ?E ''/home/user/release'' ''/tmp/bloom'' ?a)
          @ fst (resolve_and_export ?E ''/tmp/bloom'' ?a ''git://example.org/foo.git'' ''git'')
          @ [GetLastTagByDate, Warning (VersionRegressed ''1.0.0'' ''2.0.0''),
             Warning (RemovingConflictingTag ''1.0.0''),
             ExecuteCommand ''git tag -d upstream/2.0.0'',
             ExecuteCommand ''git push origin :refs/tags/upstream/2.0.0'']
          @ fst (importer ?E ?a ''/tmp/bloom/bloom_clone'' ''/tmp/bloom/upstream-1.0.0''),
          snd (importer ?E ?a ''/tmp/bloom/bloom_clone'' ''/tmp/bloom/upstream-1.0.0''))"
    by simp
  from l fl warned kept succeeded onward show ?thesis by (intro conjI)
qed


text \<open>With \<^verbatim>\<open>--replace\<close>, the same regression (1.0.0 after 2.0.0) deletes the tag
  \<open>upstream/2.0.0\<close> when git-buildpackage can replace, and is fatal when it cannot.\<close>

theorem regression_counterexample:
  "StrictVersion ''1.0.0'' = Inr (Some ((1, 0, 0), None))
   \<and> StrictVersion (join ''.'' [''2'', ''0'', ''0'']) = Inr (Some ((2, 0, 0), None))
   \<and> version_less ((1, 0, 0), None) ((2, 0, 0), None)
   \<and> import_upstream (example_env\<lparr>get_last_tag_by_date := Inr ''upstream/2.0.0''\<rparr>)
        ''/home/user/release'' ''/tmp/bloom'' (example_args\<lparr>replace := True\<rparr>)
      = ([TrackBranches [''bloom'', ''upstream''],
          MakeDirs ''/tmp/bloom/bloom_clone'', Chdir ''/tmp/bloom/bloom_clone'',
          VcsCheckout ''git'' ''/tmp/bloom/bloom_clone'' ''file:///home/user/release'' [],
          TrackBranches [''bloom'', ''upstream''], CheckOutput ''git branch'',
          GitCheckout ''bloom'', PathExists ''/tmp/bloom/bloom_clone/bloom.conf'',
          CheckOutput ''git config -f bloom.conf bloom.upstream'',
          CheckOutput ''git config -f bloom.conf bloom.upstreamtype'',
          CheckOutput ''git config -f bloom.conf bloom.upstreambranch'',
          VcsCheckout ''git'' ''/tmp/bloom/upstream'' ''git://example.org/foo.git'' [],
          FindPackages ''/tmp/bloom/upstream'',
          VcsExport ''git'' ''/tmp/bloom/upstream'' ''1.0.0'' ''/tmp/bloom/upstream-1.0.0'',
          GetLastTagByDate, Warning (VersionRegressed ''1.0.0'' ''2.0.0''),
          Warning (RemovingConflictingTag ''1.0.0''),
          ExecuteCommand ''git tag -d upstream/2.0.0'',
          ExecuteCommand ''git push origin :refs/tags/upstream/2.0.0'',
          CheckOutput ''git branch'',
          VcsUpdate ''git'' ''/tmp/bloom/bloom_clone'' ''master'',
          ImportOrig ''/tmp/bloom/upstream-1.0.0.tar.gz'' False False,
          ExecuteCommand ''git push --all -f'',
          ExecuteCommand ''git push --tags''],
         Inr ())
   \<and> deletes_tag (ExecuteCommand ''git tag -d upstream/2.0.0'')
   \<and> snd (import_upstream (example_env\<lparr>get_last_tag_by_date := Inr ''upstream/2.0.0'',
                                          has_replace := False\<rparr>)
        ''/home/user/release'' ''/tmp/bloom'' (example_args\<lparr>replace := True\<rparr>))
      = Inl (Return 1)"
  by code_simp

lemma version_guard_untagged:
  assumes "get_last_tag_by_date E = Inr []" and "segment_version E version = Inr segs"
  shows "version_guard E a version = (GetLastTagByDate # fst (unpack3 segs), snd (unpack3 segs))"
  using assms
  by (simp add: version_guard_def seq_def call_def lift_def continue_def split: prod.splits)

text \<open>C3, as the code has it. A run that reaches the version guard when the release
  repository has no prior tag parses and compares nothing, warns about nothing and
  deletes nothing: when \<open>segment_version\<close> yields exactly three segments, these become
  the baseline and the run goes on with the importer; for any other number of segments
  the unpacking at line 350 raises \<open>ValueError\<close> and the run ends there.\<close>

theorem no_prior_tag_proceeds:
  assumes reach1: "fetch E cwd tmp_dir a = (tr1, Inr (clone_dir, upstream_repo, upstream_type))"
    and reach2: "resolve_and_export E tmp_dir a upstream_repo upstream_type
                   = (tr2, Inr (version, tarball_path))"
    and no_tag: "get_last_tag_by_date E = Inr []"
    and segs: "segment_version E version = Inr segs"
  shows "(\<forall>gbp_major gbp_minor gbp_patch. segs = [gbp_major, gbp_minor, gbp_patch] \<longrightarrow>
            version_guard E a version = ([GetLastTagByDate], Inr (gbp_major, gbp_minor, gbp_patch))
          \<and> import_upstream E cwd tmp_dir a =
               (tr1 @ tr2 @ [GetLastTagByDate] @ fst (importer E a clone_dir tarball_path),
                snd (importer E a clone_dir tarball_path)))
       \<and> (length segs \<noteq> 3 \<longrightarrow>
            import_upstream E cwd tmp_dir a = (tr1 @ tr2 @ [GetLastTagByDate], Inl (Raise ValueError)))"
proof -
  note guard = version_guard_untagged [OF no_tag segs, of a]
  note run = import_upstream_reached [OF reach1 reach2]
  have three: "version_guard E a version = ([GetLastTagByDate], Inr (x, y, z))
          \<and> import_upstream E cwd tmp_dir a =
               (tr1 @ tr2 @ [GetLastTagByDate] @ fst (importer E a clone_dir tarball_path),
                snd (importer E a clone_dir tarball_path))" if "segs = [x, y, z]" for x y z
  proof -
    from guard that have g: "version_guard E a version = ([GetLastTagByDate], Inr (x, y, z))"
      by (simp add: unpack3_def continue_def)
    then show ?thesis by (simp add: run seq_Inr)
  qed
  have other: "import_upstream E cwd tmp_dir a = (tr1 @ tr2 @ [GetLastTagByDate], Inl (Raise ValueError))"
    if "length segs \<noteq> 3"
  proof -
    from that have "unpack3 segs = ([], Inl (Raise ValueError))"
      by (auto simp: unpack3_def raise_def split: list.splits)
    with guard have "version_guard E a version = ([GetLastTagByDate], Inl (Raise ValueError))"
      by simp
    then show ?thesis by (simp add: run seq_Inl)
  qed
  from three other show ?thesis by blast
qed

text \<open>The example run without a prior tag.\<close>

theorem no_prior_tag_proceeds_witness:
  "get_last_tag_by_date (example_env\<lparr>get_last_tag_by_date := Inr []\<rparr>) = Inr []
   \<and> segment_version (example_env\<lparr>get_last_tag_by_date := Inr []\<rparr>) ''1.0.0'' = Inr [''1'', ''0'', ''0'']
   \<and> version_guard (example_env\<lparr>get_last_tag_by_date := Inr []\<rparr>) example_args ''1.0.0''
       = ([GetLastTagByDate], Inr (''1'', ''0'', ''0''))
   \<and> snd (import_upstream (example_env\<lparr>get_last_tag_by_date := Inr []\<rparr>)
            ''/home/user/release'' ''/tmp/bloom'' example_args) = Inr ()"
proof -
  let ?E = "example_env\<lparr>get_last_tag_by_date := Inr []\<rparr>"
  have f: "snd (fetch ?E ''/home/user/release'' ''/tmp/bloom'' example_args)
             = Inr (''/tmp/bloom/bloom_clone'', ''git://example.org/foo.git'', ''git'')"
    by code_simp
  have r: "snd (resolve_and_export ?E ''/tmp/bloom'' example_args ''git://example.org/foo.git'' ''git'')
             = Inr (''1.0.0'', ''/tmp/bloom/upstream-1.0.0'')"
    by code_simp
  have t: "get_last_tag_by_date ?E = Inr []"
    by (simp add: example_env_def)
  have s: "segment_version ?E ''1.0.0'' = Inr [''1'', ''0'', ''0'']"
    and i: "snd (importer ?E example_args ''/tmp/bloom/bloom_clone'' ''/tmp/bloom/upstream-1.0.0'') = Inr ()"
    by code_simp+
  note applied = no_prior_tag_proceeds [OF reached [OF f] reached [OF r] t s]
  from applied have g: "version_guard ?E example_args ''1.0.0''
       = ([GetLastTagByDate], Inr (''1'', ''0'', ''0''))"
    by blast
  from applied
  have "snd (import_upstream ?E ''/home/user/release'' ''/tmp/bloom'' example_args)
          = snd (importer ?E example_args ''/tmp/bloom/bloom_clone'' ''/tmp/bloom/upstream-1.0.0'')"
    by simp
  with i g t s show ?thesis by simp
qed

text \<open>Without a prior tag, the version 1.0 (given with \<^verbatim>\<open>--not-catkin\<close>, and strict
  version syntax) has two segments: the run ends in the guard with \<open>ValueError\<close>, after
  the export and before the importer.\<close>

theorem no_prior_tag_counterexample:
  "get_last_tag_by_date (example_env\<lparr>get_last_tag_by_date := Inr []\<rparr>) = Inr []
   \<and> is_strict ''1.0''
   \<and> import_upstream (example_env\<lparr>get_last_tag_by_date := Inr []\<rparr>)
        ''/home/user/release'' ''/tmp/bloom''
        (example_args\<lparr>not_catkin := True, upstream_name := Some ''foo'', upstream_tag := Some ''1.0''\<rparr>)
      = ([TrackBranches [''bloom'', ''upstream''],
          MakeDirs ''/tmp/bloom/bloom_clone'', Chdir ''/tmp/bloom/bloom_clone'',
          VcsCheckout ''git'' ''/tmp/bloom/bloom_clone'' ''file:///home/user/release'' [],
          TrackBranches [''bloom'', ''upstream''], CheckOutput ''git branch'',
          GitCheckout ''bloom'', PathExists ''/tmp/bloom/bloom_clone/bloom.conf'',
          CheckOutput ''git config -f bloom.conf bloom.upstream'',
          CheckOutput ''git config -f bloom.conf bloom.upstreamtype'',
          CheckOutput ''git config -f bloom.conf bloom.upstreambranch'',
          VcsCheckout ''git'' ''/tmp/bloom/upstream'' ''git://example.org/foo.git'' [],
          VcsExport ''git'' ''/tmp/bloom/upstream'' ''1.0'' ''/tmp/bloom/upstream-1.0'',
          GetLastTagByDate],
         Inl (Raise ValueError))"
  by code_simp

lemma parse_error: "parse s = Inl e \<Longrightarrow> e = ValueError"
  by (auto simp: parse_def Let_def split: list.splits if_splits)

lemma StrictVersion_unparsed:
  "s \<noteq> [] \<Longrightarrow> \<not> is_strict s \<Longrightarrow> StrictVersion s = Inl ValueError"
  by (cases "parse s") (auto simp: StrictVersion_def is_strict_def dest: parse_error)

lemma StrictVersion_parsed:
  "is_strict s \<Longrightarrow> \<exists>v. StrictVersion s = Inr (Some v)"
  by (cases "parse s") (auto simp: StrictVersion_def is_strict_def parse_def)

lemma join3_nonempty: "join ''.'' [x, y, z] \<noteq> []"
  by simp

text \<open>C5, as the code has it. A run that reaches the version guard with a prior tag whose
  three version segments were extracted constructs a \<open>StrictVersion\<close> from the new
  version and then one from the joined segments of the tag. A new version that is not
  empty is parsed, and so are the joined segments; when one of these is not strict
  version syntax the run ends with \<open>ValueError\<close>, nothing else having happened in the
  guard. An empty new version is not parsed at all: when the tag's version is strict
  syntax, the run ends with \<open>AttributeError\<close> at the first comparison. When both
  strings are strict syntax, the regression warning is decided on the parsed versions.\<close>

theorem strict_parse_with_prior_tag:
  assumes reach1: "fetch E cwd tmp_dir a = (tr1, Inr (clone_dir, upstream_repo, upstream_type))"
    and reach2: "resolve_and_export E tmp_dir a upstream_repo upstream_type
                   = (tr2, Inr (version, tarball_path))"
    and tag: "get_last_tag_by_date E = Inr last_tag" "last_tag \<noteq> []"
    and segs: "get_versions_from_upstream_tag E last_tag = Inr [gbp_major, gbp_minor, gbp_patch]"
  shows "((version \<noteq> [] \<and> \<not> is_strict version)
            \<or> \<not> is_strict (join ''.'' [gbp_major, gbp_minor, gbp_patch]) \<longrightarrow>
            version_guard E a version = ([GetLastTagByDate], Inl (Raise ValueError))
          \<and> import_upstream E cwd tmp_dir a = (tr1 @ tr2 @ [GetLastTagByDate], Inl (Raise ValueError)))
       \<and> (version = [] \<and> is_strict (join ''.'' [gbp_major, gbp_minor, gbp_patch]) \<longrightarrow>
            version_guard E a version = ([GetLastTagByDate], Inl (Raise AttributeError))
          \<and> import_upstream E cwd tmp_dir a
              = (tr1 @ tr2 @ [GetLastTagByDate], Inl (Raise AttributeError)))
       \<and> (is_strict version \<and> is_strict (join ''.'' [gbp_major, gbp_minor, gbp_patch]) \<longrightarrow>
            (\<exists>new old. StrictVersion version = Inr (Some new)
               \<and> StrictVersion (join ''.'' [gbp_major, gbp_minor, gbp_patch]) = Inr (Some old)
               \<and> (Warning (VersionRegressed version (join ''.'' [gbp_major, gbp_minor, gbp_patch]))
                    \<in> set (fst (version_guard E a version)) \<longleftrightarrow> version_less new old)))"
proof -
  let ?old = "join ''.'' [gbp_major, gbp_minor, gbp_patch]"
  note run = import_upstream_reached [OF reach1 reach2]
  note unfolded = version_guard_def seq_def call_def lift_def continue_def raise_def unpack3_def
  have bad: "version_guard E a version = ([GetLastTagByDate], Inl (Raise ValueError))"
    if "(version \<noteq> [] \<and> \<not> is_strict version) \<or> \<not> is_strict ?old"
  proof (cases "StrictVersion version")
    case (Inl e)
    then have "version \<noteq> []" by (auto simp: StrictVersion_def)
    with Inl have "StrictVersion version = Inl ValueError"
      by (cases "parse version") (auto simp: StrictVersion_def dest: parse_error)
    with tag segs show ?thesis by (simp add: unfolded)
  next
    case (Inr full)
    have "\<not> is_strict ?old"
    proof
      assume "is_strict ?old"
      with that have "version \<noteq> []" "\<not> is_strict version" by auto
      from StrictVersion_unparsed [OF this] Inr show False by simp
    qed
    from StrictVersion_unparsed [OF join3_nonempty this]
    have "StrictVersion ?old = Inl ValueError" .
    with tag segs Inr show ?thesis by (simp add: unfolded)
  qed
  have empty: "version_guard E a version = ([GetLastTagByDate], Inl (Raise AttributeError))"
    if "version = [] \<and> is_strict ?old"
  proof -
    from that have "StrictVersion version = Inr None" by (simp add: StrictVersion_def)
    moreover from that StrictVersion_parsed obtain old where "StrictVersion ?old = Inr (Some old)"
      by blast
    ultimately show ?thesis using tag segs
      by (simp add: unfolded compare_objects_def)
  qed
  have good: "\<exists>new old. StrictVersion version = Inr (Some new) \<and> StrictVersion ?old = Inr (Some old)
               \<and> (Warning (VersionRegressed version ?old) \<in> set (fst (version_guard E a version))
                    \<longleftrightarrow> version_less new old)"
    if "is_strict version \<and> is_strict ?old"
  proof -
    from that StrictVersion_parsed obtain new old
      where p: "StrictVersion version = Inr (Some new)" "StrictVersion ?old = Inr (Some old)"
      by blast
    from version_guard_tagged [OF tag segs p, of a]
    have "Warning (VersionRegressed version ?old) \<in> set (fst (version_guard E a version))
            \<longleftrightarrow> version_less new old"
      by (auto simp: Let_def version_less_def split: option.splits if_splits)
    with p show ?thesis by blast
  qed
  from bad empty good show ?thesis by (simp add: run seq_Inl)
qed

text \<open>The example run, with its tag \<open>upstream/1.0.0\<close>, for the new version 1.0.x and
  for an empty new version.\<close>

theorem strict_parse_with_prior_tag_witness:
  "get_last_tag_by_date example_env = Inr ''upstream/1.0.0''
   \<and> \<not> is_strict ''1.0.x''
   \<and> version_guard example_env
        (example_args\<lparr>not_catkin := True, upstream_name := Some ''foo'', upstream_tag := Some ''1.0.x''\<rparr>)
        ''1.0.x'' = ([GetLastTagByDate], Inl (Raise ValueError))
   \<and> snd (import_upstream example_env ''/home/user/release'' ''/tmp/bloom''
        (example_args\<lparr>not_catkin := True, upstream_name := Some ''foo'', upstream_tag := Some ''1.0.x''\<rparr>))
      = Inl (Raise ValueError)
   \<and> is_strict (join ''.'' [''1'', ''0'', ''0''])
   \<and> snd (import_upstream example_env ''/home/user/release'' ''/tmp/bloom''
        (example_args\<lparr>not_catkin := True, upstream_name := Some ''foo'', upstream_tag := Some []\<rparr>))
      = Inl (Raise AttributeError)"
proof -
  let ?e = "example_args\<lparr>not_catkin := True, upstream_name := Some ''foo'', upstream_tag := Some []\<rparr>"
  let ?a = "example_args\<lparr>not_catkin := True, upstream_name := Some ''foo'', upstream_tag := Some ''1.0.x''\<rparr>"
  have f: "snd (fetch example_env ''/home/user/release'' ''/tmp/bloom'' ?a)
             = Inr (''/tmp/bloom/bloom_clone'', ''git://example.org/foo.git'', ''git'')"
    by code_simp
  have r: "snd (resolve_and_export example_env ''/tmp/bloom'' ?a ''git://example.org/foo.git'' ''git'')
             = Inr (''1.0.x'', ''/tmp/bloom/upstream-1.0.x'')"
    by code_simp
  have t: "get_last_tag_by_date example_env = Inr ''upstream/1.0.0''"
    and s: "get_versions_from_upstream_tag example_env ''upstream/1.0.0'' = Inr [''1'', ''0'', ''0'']"
    by (simp_all add: example_env_def)
  have b: "\<not> is_strict ''1.0.x''" by code_simp
  have ne: "''upstream/1.0.0'' \<noteq> []" by simp
  note applied = strict_parse_with_prior_tag [OF reached [OF f] reached [OF r] t ne s]
  have filled: "''1.0.x'' \<noteq> []" by simp
  from applied b filled
  have g: "version_guard example_env ?a ''1.0.x'' = ([GetLastTagByDate], Inl (Raise ValueError))"
    by blast
  from applied b filled
  have v: "snd (import_upstream example_env ''/home/user/release'' ''/tmp/bloom'' ?a)
             = Inl (Raise ValueError)"
    by simp
  have f': "snd (fetch example_env ''/home/user/release'' ''/tmp/bloom'' ?e)
             = Inr (''/tmp/bloom/bloom_clone'', ''git://example.org/foo.git'', ''git'')"
    by code_simp
  have r': "snd (resolve_and_export example_env ''/tmp/bloom'' ?e ''git://example.org/foo.git'' ''git'')
             = Inr ([], ''/tmp/bloom/upstream-'')"
    by code_simp
  have strict: "is_strict (join ''.'' [''1'', ''0'', ''0''])" by code_simp
  note emptied = strict_parse_with_prior_tag [OF reached [OF f'] reached [OF r'] t ne s]
  from emptied strict
  have e: "snd (import_upstream example_env ''/home/user/release'' ''/tmp/bloom'' ?e)
             = Inl (Raise AttributeError)"
    by simp
  from t b g v strict e show ?thesis by (intro conjI)
qed


text \<open>Without a prior tag nothing is parsed: the run for the version 1.0.x, which is not
  strict version syntax, passes the guard and succeeds. With the tag \<open>upstream/1.0.0\<close>
  and an empty version (\<^verbatim>\<open>--not-catkin\<close> with an empty \<^verbatim>\<open>--upstream-tag\<close>), the run
  ends with \<open>AttributeError\<close>, which is not a parsing error.\<close>

theorem strict_parse_counterexample:
  "get_last_tag_by_date (example_env\<lparr>get_last_tag_by_date := Inr []\<rparr>) = Inr []
   \<and> \<not> is_strict ''1.0.x''
   \<and> import_upstream (example_env\<lparr>get_last_tag_by_date := Inr []\<rparr>)
        ''/home/user/release'' ''/tmp/bloom''
        (example_args\<lparr>not_catkin := True, upstream_name := Some ''foo'', upstream_tag := Some ''1.0.x''\<rparr>)
      = ([TrackBranches [''bloom'', ''upstream''],
          MakeDirs ''/tmp/bloom/bloom_clone'', Chdir ''/tmp/bloom/bloom_clone'',
          VcsCheckout ''git'' ''/tmp/bloom/bloom_clone'' ''file:///home/user/release'' [],
          TrackBranches [''bloom'', ''upstream''], CheckOutput ''git branch'',
          GitCheckout ''bloom'', PathExists ''/tmp/bloom/bloom_clone/bloom.conf'',
          CheckOutput ''git config -f bloom.conf bloom.upstream'',
          CheckOutput ''git config -f bloom.conf bloom.upstreamtype'',
          CheckOutput ''git config -f bloom.conf bloom.upstreambranch'',
          VcsCheckout ''git'' ''/tmp/bloom/upstream'' ''git://example.org/foo.git'' [],
          VcsExport ''git'' ''/tmp/bloom/upstream'' ''1.0.x'' ''/tmp/bloom/upstream-1.0.x'',
          GetLastTagByDate,
          CheckOutput ''git branch'',
          VcsUpdate ''git'' ''/tmp/bloom/bloom_clone'' ''master'',
          ImportOrig ''/tmp/bloom/upstream-1.0.x.tar.gz'' False False,
          ExecuteCommand ''git push --all -f'',
          ExecuteCommand ''git push --tags''],
         Inr ())
   \<and> get_last_tag_by_date example_env = Inr ''upstream/1.0.0''
   \<and> import_upstream example_env ''/home/user/release'' ''/tmp/bloom''
        (example_args\<lparr>not_catkin := True, upstream_name := Some ''foo'', upstream_tag := Some []\<rparr>)
      = ([TrackBranches [''bloom'', ''upstream''],
          MakeDirs ''/tmp/bloom/bloom_clone'', Chdir ''/tmp/bloom/bloom_clone'',
          VcsCheckout ''git'' ''/tmp/bloom/bloom_clone'' ''file:///home/user/release'' [],
          TrackBranches [''bloom'', ''upstream''], CheckOutput ''git branch'',
          GitCheckout ''bloom'', PathExists ''/tmp/bloom/bloom_clone/bloom.conf'',
          CheckOutput ''git config -f bloom.conf bloom.upstream'',
          CheckOutput ''git config -f bloom.conf bloom.upstreamtype'',
          CheckOutput ''git config -f bloom.conf bloom.upstreambranch'',
          VcsCheckout ''git'' ''/tmp/bloom/upstream'' ''git://example.org/foo.git'' [],
          VcsExport ''git'' ''/tmp/bloom/upstream'' [] ''/tmp/bloom/upstream-'',
          GetLastTagByDate],
         Inl (Raise AttributeError))"
  by code_simp

section \<open>The metadata step\<close>

lemma resolve_meta_usage:
  assumes "not_catkin a" and "upstream_name a = None \<or> upstream_tag a = None"
  shows "resolve_meta E a d = ([Error NotCatkinNeedsNameAndTag], Inl (Return 1))"
  using assms
  by (auto simp: resolve_meta_def seq_def emit_def return_code_def split: option.splits)

text \<open>C4, as the code has it. In a run with \<^verbatim>\<open>--not-catkin\<close> and without
  \<^verbatim>\<open>--upstream-name\<close> or without \<^verbatim>\<open>--upstream-tag\<close>, the check of lines 293 to 298
  comes after the release repository has been cloned and validated and the upstream tree
  has been checked out (lines 228 to 290): once these steps have passed, the run reports
  the usage error and returns 1, and nothing else happens; when one of them fails, the run
  ends with that failure. In neither case does the run succeed, search the upstream tree
  for manifests, or export anything.\<close>

theorem not_catkin_usage_error:
  assumes flag: "not_catkin a"
    and missing: "upstream_name a = None \<or> upstream_tag a = None"
  shows "(\<forall>tr1 x. fetch E cwd tmp_dir a = (tr1, Inr x) \<longrightarrow>
            import_upstream E cwd tmp_dir a = (tr1 @ [Error NotCatkinNeedsNameAndTag], Inl (Return 1)))
       \<and> (\<forall>tr1 s. fetch E cwd tmp_dir a = (tr1, Inl s) \<longrightarrow>
            import_upstream E cwd tmp_dir a = (tr1, Inl s))
       \<and> list_all (\<lambda>ev. \<not> inspects_tree ev \<and> \<not> exports ev) (fst (import_upstream E cwd tmp_dir a))
       \<and> snd (import_upstream E cwd tmp_dir a) \<noteq> Inr ()"
proof -
  note usage = resolve_meta_usage [OF flag missing]
  have stopped: "import_upstream E cwd tmp_dir a = (tr1 @ [Error NotCatkinNeedsNameAndTag], Inl (Return 1))"
    if "fetch E cwd tmp_dir a = (tr1, Inr x)" for tr1 x
  proof -
    obtain clone_dir upstream_repo upstream_type where x: "x = (clone_dir, upstream_repo, upstream_type)"
      by (cases x) auto
    have "resolve_and_export E tmp_dir a upstream_repo upstream_type
            = ([Error NotCatkinNeedsNameAndTag], Inl (Return 1))"
      by (simp add: resolve_and_export_def usage seq_Inl)
    with that x show ?thesis by (simp add: import_upstream_def seq_def)
  qed
  have earlier: "import_upstream E cwd tmp_dir a = (tr1, Inl s)"
    if "fetch E cwd tmp_dir a = (tr1, Inl s)" for tr1 s
    using that by (simp add: import_upstream_def seq_Inl)
  have fetched: "list_all (\<lambda>ev. \<not> inspects_tree ev \<and> \<not> exports ev) (fst (fetch E cwd tmp_dir a))"
    using fetch_quiet [of E cwd tmp_dir a] by (auto simp: quiet_def elim: all_weaken)
  obtain tr1 r where f: "fetch E cwd tmp_dir a = (tr1, r)" by (cases "fetch E cwd tmp_dir a")
  have "list_all (\<lambda>ev. \<not> inspects_tree ev \<and> \<not> exports ev) (fst (import_upstream E cwd tmp_dir a))
          \<and> snd (import_upstream E cwd tmp_dir a) \<noteq> Inr ()"
  proof (cases r)
    case (Inl s)
    with f fetched earlier [of tr1 s] show ?thesis by simp
  next
    case (Inr x)
    with f fetched stopped [of tr1 x] show ?thesis by (simp add: inspects_tree_def exports_def)
  qed
  then have "list_all (\<lambda>ev. \<not> inspects_tree ev \<and> \<not> exports ev) (fst (import_upstream E cwd tmp_dir a))"
    and "snd (import_upstream E cwd tmp_dir a) \<noteq> Inr ()"
    by simp_all
  moreover from stopped have "\<forall>tr1 x. fetch E cwd tmp_dir a = (tr1, Inr x) \<longrightarrow>
            import_upstream E cwd tmp_dir a = (tr1 @ [Error NotCatkinNeedsNameAndTag], Inl (Return 1))"
    by (intro allI impI)
  moreover from earlier have "\<forall>tr1 s. fetch E cwd tmp_dir a = (tr1, Inl s) \<longrightarrow>
            import_upstream E cwd tmp_dir a = (tr1, Inl s)"
    by (intro allI impI)
  ultimately show ?thesis by (intro conjI)
qed

text \<open>The example run with \<^verbatim>\<open>--not-catkin\<close> alone.\<close>

theorem not_catkin_usage_error_witness:
  "not_catkin (example_args\<lparr>not_catkin := True\<rparr>)
   \<and> upstream_name (example_args\<lparr>not_catkin := True\<rparr>) = None
   \<and> list_all (\<lambda>ev. \<not> inspects_tree ev \<and> \<not> exports ev)
        (fst (import_upstream example_env ''/home/user/release'' ''/tmp/bloom''
                (example_args\<lparr>not_catkin := True\<rparr>)))
   \<and> snd (import_upstream example_env ''/home/user/release'' ''/tmp/bloom''
                (example_args\<lparr>not_catkin := True\<rparr>)) = Inl (Return 1)"
proof -
  let ?a = "example_args\<lparr>not_catkin := True\<rparr>"
  have flag: "not_catkin ?a" and none: "upstream_name ?a = None" by code_simp+
  then have missing: "upstream_name ?a = None \<or> upstream_tag ?a = None" by simp
  have f: "snd (fetch example_env ''/home/user/release'' ''/tmp/bloom'' ?a)
             = Inr (''/tmp/bloom/bloom_clone'', ''git://example.org/foo.git'', ''git'')"
    by code_simp
  note applied = not_catkin_usage_error [OF flag missing, of example_env "''/home/user/release''" "''/tmp/bloom''"]
  from applied have "\<forall>tr1 x. fetch example_env ''/home/user/release'' ''/tmp/bloom'' ?a = (tr1, Inr x) \<longrightarrow>
            import_upstream example_env ''/home/user/release'' ''/tmp/bloom'' ?a
              = (tr1 @ [Error NotCatkinNeedsNameAndTag], Inl (Return 1))"
    by (rule conjunct1)
  from this [rule_format, OF reached [OF f]]
  have res: "snd (import_upstream example_env ''/home/user/release'' ''/tmp/bloom'' ?a) = Inl (Return 1)"
    by simp
  from applied have events: "list_all (\<lambda>ev. \<not> inspects_tree ev \<and> \<not> exports ev)
        (fst (import_upstream example_env ''/home/user/release'' ''/tmp/bloom'' ?a))"
    by (rule conjunct2 [THEN conjunct2, THEN conjunct1])
  show ?thesis
    by (intro conjI flag none events res)
qed

text \<open>The same run in full: the upstream repository is checked out into
  \<open>/tmp/bloom/upstream\<close> before the usage error is found.\<close>

theorem not_catkin_checkout_counterexample:
  "not_catkin (example_args\<lparr>not_catkin := True\<rparr>)
   \<and> upstream_name (example_args\<lparr>not_catkin := True\<rparr>) = None
   \<and> upstream_tag (example_args\<lparr>not_catkin := True\<rparr>) = None
   \<and> import_upstream example_env ''/home/user/release'' ''/tmp/bloom''
        (example_args\<lparr>not_catkin := True\<rparr>)
      = ([TrackBranches [''bloom'', ''upstream''],
          MakeDirs ''/tmp/bloom/bloom_clone'', Chdir ''/tmp/bloom/bloom_clone'',
          VcsCheckout ''git'' ''/tmp/bloom/bloom_clone'' ''file:///home/user/release'' [],
          TrackBranches [''bloom'', ''upstream''], CheckOutput ''git branch'',
          GitCheckout ''bloom'', PathExists ''/tmp/bloom/bloom_clone/bloom.conf'',
          CheckOutput ''git config -f bloom.conf bloom.upstream'',
          CheckOutput ''git config -f bloom.conf bloom.upstreamtype'',
          CheckOutput ''git config -f bloom.conf bloom.upstreambranch'',
          VcsCheckout ''git'' ''/tmp/bloom/upstream'' ''git://example.org/foo.git'' [],
          Error NotCatkinNeedsNameAndTag],
         Inl (Return 1))"
  by code_simp

section \<open>Subversion upstreams\<close>

lemma checkout_upstream_svn:
  assumes "ver0 = (case upstream_devel a of Some v \<Rightarrow> v | None \<Rightarrow> upstream_branch)"
    and "url = (if ver0 = [] \<or> ver0 = ''(No branch set)'' then upstream_repo @ ''/trunk''
                else upstream_repo @ ''/branches/'' @ ver0)"
    and "warn = (case upstream_devel a of Some v \<Rightarrow> [Warning (OverridingBranch v)] | None \<Rightarrow> [])"
  shows "checkout_upstream E tmp_dir a upstream_repo ''svn'' upstream_branch =
           (if vcs_checkout E 278 url []
            then (warn @ [VcsCheckout ''svn'' (path_join tmp_dir ''upstream'') url []],
                  Inr (if ver0 \<noteq> ''(No branch set)'' then ver0 else []))
            else (warn @ [VcsCheckout ''svn'' (path_join tmp_dir ''upstream'') url [],
                          Error (CouldNotCheckout url)], Inl (Return 1)))"
  using assms
  by (cases "upstream_devel a")
     (simp_all add: checkout_upstream_def Let_def seq_def emit_def continue_def return_code_def)

lemma export_tarball_svn:
  assumes "svn_dir = path_join tmp_dir ''svn_tag''"
    and "url1 = upstream_repo @ ''/tags/'' @ version"
    and "url2 = upstream_repo @ ''/tags/'' @ name @ ''-'' @ version"
    and "tarball_path = path_join tmp_dir (''upstream-'' @ version)"
    and "attempts = (if vcs_checkout E 335 url1 [] then [VcsCheckout ''svn'' svn_dir url1 []]
                     else [VcsCheckout ''svn'' svn_dir url1 [], Warning (TagNotFoundAt url1),
                           Warning (Trying url2), VcsCheckout ''svn'' svn_dir url2 []])"
  shows "export_tarball E tmp_dir upstream_repo ''svn'' name version =
           (if vcs_checkout E 335 url1 [] \<or> vcs_checkout E 339 url2 [] then
              (if export_repository E [] tarball_path
               then (attempts @ [VcsExport ''svn'' svn_dir [] tarball_path], Inr tarball_path)
               else (attempts @ [VcsExport ''svn'' svn_dir [] tarball_path, Error FailedToExport],
                     Inl (Return 1)))
            else (attempts @ [Error CouldNotCheckoutVersion], Inl (Return 1)))"
  using assms
  by (simp add: export_tarball_def Let_def seq_def emit_def continue_def return_code_def)

lemma fetch_reached:
  assumes "clone_release_repo E cwd tmp_dir = (t1, Inr clone_dir)"
    and "check_for_bloom E clone_dir = (t2, Inr ())"
    and "parse_bloom_conf E = (t3, Inr (upstream_repo, upstream_type, upstream_branch))"
  shows "fetch E cwd tmp_dir a =
           (t1 @ t2 @ t3 @ fst (checkout_upstream E tmp_dir a upstream_repo upstream_type upstream_branch),
            case snd (checkout_upstream E tmp_dir a upstream_repo upstream_type upstream_branch) of
              Inl s \<Rightarrow> Inl s
            | Inr ver \<Rightarrow> Inr (clone_dir, upstream_repo, upstream_type))"
  using assms
  by (cases "checkout_upstream E tmp_dir a upstream_repo upstream_type upstream_branch";
      cases "snd (checkout_upstream E tmp_dir a upstream_repo upstream_type upstream_branch)")
     (simp_all add: fetch_def seq_def continue_def)

lemma import_upstream_prefix:
  "prefix (fst (fetch E cwd tmp_dir a)) (fst (import_upstream E cwd tmp_dir a))"
  by (cases "fetch E cwd tmp_dir a"; cases "snd (fetch E cwd tmp_dir a)")
     (auto simp: import_upstream_def seq_def split: prod.splits sum.splits)

lemma seq_prefix_fst: "prefix (fst m) (fst (seq m f))"
  by (cases m; cases "snd m") (auto simp: seq_def split: prod.splits)


lemma resolve_and_export_reached:
  assumes "resolve_meta E a (path_join tmp_dir ''upstream'') = (tm, Inr meta)"
    and "name_and_version meta = (tn, Inr (name, version))"
  shows "resolve_and_export E tmp_dir a upstream_repo upstream_type =
           (tm @ fst (export_tarball E tmp_dir upstream_repo upstream_type name version),
            case snd (export_tarball E tmp_dir upstream_repo upstream_type name version) of
              Inl s \<Rightarrow> Inl s
            | Inr tarball_path \<Rightarrow> Inr (version, tarball_path))"
proof -
  from assms(2) name_and_version_events [of meta] have "tn = []" by simp
  with assms show ?thesis
    by (cases "export_tarball E tmp_dir upstream_repo upstream_type name version";
        cases "snd (export_tarball E tmp_dir upstream_repo upstream_type name version)")
       (simp_all add: resolve_and_export_def seq_def continue_def)
qed

lemma import_upstream_prefix2:
  assumes "fetch E cwd tmp_dir a = (tr1, Inr (clone_dir, upstream_repo, upstream_type))"
  shows "prefix (tr1 @ fst (resolve_and_export E tmp_dir a upstream_repo upstream_type))
           (fst (import_upstream E cwd tmp_dir a))"
  using assms seq_prefix_fst [of "resolve_and_export E tmp_dir a upstream_repo upstream_type"
      "\<lambda>(version, tarball_path). seq (version_guard E a version) (\<lambda>gbp. importer E a clone_dir tarball_path)"]
  by (simp add: import_upstream_def seq_Inr)

lemma import_upstream_stopped:
  assumes "fetch E cwd tmp_dir a = (tr1, Inr (clone_dir, upstream_repo, upstream_type))"
    and "resolve_and_export E tmp_dir a upstream_repo upstream_type = (tr2, Inl s)"
  shows "import_upstream E cwd tmp_dir a = (tr1 @ tr2, Inl s)"
  using assms by (simp add: import_upstream_def seq_def)

text \<open>C6. A run whose configuration names the upstream type svn, up to its checkout of
  the upstream tree: the url checked out is \<open>repo/trunk\<close> when no branch is given
  (the branch, from \<^verbatim>\<open>--upstream-devel\<close> or else from the configuration, is empty or
  the placeholder shown for an empty one) and \<open>repo/branches/name\<close> otherwise. When
  that checkout has succeeded and the metadata are resolved, the tag export first checks
  out \<open>repo/tags/version\<close>; if that succeeds nothing else is tried and the export
  follows; only if it fails is \<open>repo/tags/name-version\<close> checked out, and the export
  follows if that succeeds; the run returns 1 at this point only when both have
  failed.\<close>

theorem svn_paths:
  assumes clone: "clone_release_repo E cwd tmp_dir = (t1, Inr clone_dir)"
    and valid: "check_for_bloom E clone_dir = (t2, Inr ())"
    and conf: "parse_bloom_conf E = (t3, Inr (upstream_repo, ''svn'', upstream_branch))"
    and ver0: "ver0 = (case upstream_devel a of Some v \<Rightarrow> v | None \<Rightarrow> upstream_branch)"
    and warn: "warn = (case upstream_devel a of Some v \<Rightarrow> [Warning (OverridingBranch v)] | None \<Rightarrow> [])"
    and url: "url = (if ver0 = [] \<or> ver0 = ''(No branch set)'' then upstream_repo @ ''/trunk''
                     else upstream_repo @ ''/branches/'' @ ver0)"
    and pre: "pre = t1 @ t2 @ t3 @ warn @ [VcsCheckout ''svn'' (path_join tmp_dir ''upstream'') url []]"
    and svn_dir: "svn_dir = path_join tmp_dir ''svn_tag''"
    and url1: "url1 = upstream_repo @ ''/tags/'' @ version"
    and url2: "url2 = upstream_repo @ ''/tags/'' @ name @ ''-'' @ version"
    and tarball: "tarball_path = path_join tmp_dir (''upstream-'' @ version)"
  shows "prefix pre (fst (import_upstream E cwd tmp_dir a))
       \<and> (vcs_checkout E 278 url []
            \<and> resolve_meta E a (path_join tmp_dir ''upstream'') = (tm, Inr meta)
            \<and> name_and_version meta = (tn, Inr (name, version)) \<longrightarrow>
            (vcs_checkout E 335 url1 [] \<longrightarrow>
               prefix (pre @ tm @ [VcsCheckout ''svn'' svn_dir url1 [],
                                   VcsExport ''svn'' svn_dir [] tarball_path])
                 (fst (import_upstream E cwd tmp_dir a)))
          \<and> (\<not> vcs_checkout E 335 url1 [] \<and> vcs_checkout E 339 url2 [] \<longrightarrow>
               prefix (pre @ tm @ [VcsCheckout ''svn'' svn_dir url1 [], Warning (TagNotFoundAt url1),
                                   Warning (Trying url2), VcsCheckout ''svn'' svn_dir url2 [],
                                   VcsExport ''svn'' svn_dir [] tarball_path])
                 (fst (import_upstream E cwd tmp_dir a)))
          \<and> (\<not> vcs_checkout E 335 url1 [] \<and> \<not> vcs_checkout E 339 url2 [] \<longrightarrow>
               import_upstream E cwd tmp_dir a =
                 (pre @ tm @ [VcsCheckout ''svn'' svn_dir url1 [], Warning (TagNotFoundAt url1),
                              Warning (Trying url2), VcsCheckout ''svn'' svn_dir url2 [],
                              Error CouldNotCheckoutVersion],
                  Inl (Return 1))))"
proof -
  note co = checkout_upstream_svn [OF ver0 url warn, of E tmp_dir]
  note fe = fetch_reached [OF clone valid conf, of a]
  have first: "prefix pre (fst (import_upstream E cwd tmp_dir a))"
  proof -
    have "prefix pre (fst (fetch E cwd tmp_dir a))"
      by (simp add: fe co pre)
    with import_upstream_prefix [of E cwd tmp_dir a] show ?thesis
      by (rule prefix_order.trans [rotated])
  qed
  have second: "(vcs_checkout E 335 url1 [] \<longrightarrow>
               prefix (pre @ tm @ [VcsCheckout ''svn'' svn_dir url1 [],
                                   VcsExport ''svn'' svn_dir [] tarball_path])
                 (fst (import_upstream E cwd tmp_dir a)))
          \<and> (\<not> vcs_checkout E 335 url1 [] \<and> vcs_checkout E 339 url2 [] \<longrightarrow>
               prefix (pre @ tm @ [VcsCheckout ''svn'' svn_dir url1 [], Warning (TagNotFoundAt url1),
                                   Warning (Trying url2), VcsCheckout ''svn'' svn_dir url2 [],
                                   VcsExport ''svn'' svn_dir [] tarball_path])
                 (fst (import_upstream E cwd tmp_dir a)))
          \<and> (\<not> vcs_checkout E 335 url1 [] \<and> \<not> vcs_checkout E 339 url2 [] \<longrightarrow>
               import_upstream E cwd tmp_dir a =
                 (pre @ tm @ [VcsCheckout ''svn'' svn_dir url1 [], Warning (TagNotFoundAt url1),
                              Warning (Trying url2), VcsCheckout ''svn'' svn_dir url2 [],
                              Error CouldNotCheckoutVersion],
                  Inl (Return 1)))"
    if ok: "vcs_checkout E 278 url []"
      and meta: "resolve_meta E a (path_join tmp_dir ''upstream'') = (tm, Inr meta)"
      and nv: "name_and_version meta = (tn, Inr (name, version))"
  proof -
    from fe co ok pre have f: "fetch E cwd tmp_dir a = (pre, Inr (clone_dir, upstream_repo, ''svn''))"
      by simp
    note re = resolve_and_export_reached [OF meta nv, of upstream_repo "''svn''"]
    note ex = export_tarball_svn [OF svn_dir url1 url2 tarball refl, of E]
    note long = import_upstream_prefix2 [OF f]
    have a: "prefix (pre @ tm @ [VcsCheckout ''svn'' svn_dir url1 [],
                                   VcsExport ''svn'' svn_dir [] tarball_path])
                 (fst (import_upstream E cwd tmp_dir a))" if "vcs_checkout E 335 url1 []"
    proof -
      from that have "prefix (pre @ tm @ [VcsCheckout ''svn'' svn_dir url1 [],
                                   VcsExport ''svn'' svn_dir [] tarball_path])
                 (pre @ fst (resolve_and_export E tmp_dir a upstream_repo ''svn''))"
        by (simp add: re ex)
      with long show ?thesis by (rule prefix_order.trans [rotated])
    qed
    have b: "prefix (pre @ tm @ [VcsCheckout ''svn'' svn_dir url1 [], Warning (TagNotFoundAt url1),
                                   Warning (Trying url2), VcsCheckout ''svn'' svn_dir url2 [],
                                   VcsExport ''svn'' svn_dir [] tarball_path])
                 (fst (import_upstream E cwd tmp_dir a))"
      if "\<not> vcs_checkout E 335 url1 []" "vcs_checkout E 339 url2 []"
    proof -
      from that have "prefix (pre @ tm @ [VcsCheckout ''svn'' svn_dir url1 [], Warning (TagNotFoundAt url1),
                                   Warning (Trying url2), VcsCheckout ''svn'' svn_dir url2 [],
                                   VcsExport ''svn'' svn_dir [] tarball_path])
                 (pre @ fst (resolve_and_export E tmp_dir a upstream_repo ''svn''))"
        by (simp add: re ex)
      with long show ?thesis by (rule prefix_order.trans [rotated])
    qed
    have c: "import_upstream E cwd tmp_dir a =
                 (pre @ tm @ [VcsCheckout ''svn'' svn_dir url1 [], Warning (TagNotFoundAt url1),
                              Warning (Trying url2), VcsCheckout ''svn'' svn_dir url2 [],
                              Error CouldNotCheckoutVersion],
                  Inl (Return 1))"
      if "\<not> vcs_checkout E 335 url1 []" "\<not> vcs_checkout E 339 url2 []"
    proof -
      from that have "resolve_and_export E tmp_dir a upstream_repo ''svn'' =
           (tm @ [VcsCheckout ''svn'' svn_dir url1 [], Warning (TagNotFoundAt url1),
                  Warning (Trying url2), VcsCheckout ''svn'' svn_dir url2 [],
                  Error CouldNotCheckoutVersion], Inl (Return 1))"
        by (simp add: re ex)
      from import_upstream_stopped [OF f this] show ?thesis by simp
    qed
    from a b c show ?thesis by (intro conjI impI) simp_all
  qed
  from first second show ?thesis by (intro conjI impI) simp_all
qed


text \<open>The svn example: trunk, then the first tag path, then the second, then the
  export.\<close>

theorem svn_paths_witness:
  "prefix
     [TrackBranches [''bloom'', ''upstream''],
      MakeDirs ''/tmp/bloom/bloom_clone'', Chdir ''/tmp/bloom/bloom_clone'',
      VcsCheckout ''git'' ''/tmp/bloom/bloom_clone'' ''file:///home/user/release'' [],
      TrackBranches [''bloom'', ''upstream''], CheckOutput ''git branch'',
      GitCheckout ''bloom'', PathExists ''/tmp/bloom/bloom_clone/bloom.conf'',
      CheckOutput ''git config -f bloom.conf bloom.upstream'',
      CheckOutput ''git config -f bloom.conf bloom.upstreamtype'',
      CheckOutput ''git config -f bloom.conf bloom.upstreambranch'',
      VcsCheckout ''svn'' ''/tmp/bloom/upstream'' ''https://svn.example.org/foo/trunk'' [],
      FindPackages ''/tmp/bloom/upstream'',
      VcsCheckout ''svn'' ''/tmp/bloom/svn_tag'' ''https://svn.example.org/foo/tags/2.1.0'' [],
      Warning (TagNotFoundAt ''https://svn.example.org/foo/tags/2.1.0''),
      Warning (Trying ''https://svn.example.org/foo/tags/foo-2.1.0''),
      VcsCheckout ''svn'' ''/tmp/bloom/svn_tag'' ''https://svn.example.org/foo/tags/foo-2.1.0'' [],
      VcsExport ''svn'' ''/tmp/bloom/svn_tag'' [] ''/tmp/bloom/upstream-2.1.0'']
     (fst (import_upstream svn_env ''/home/user/release'' ''/tmp/bloom'' example_args))"
proof -
  have clone: "clone_release_repo svn_env ''/home/user/release'' ''/tmp/bloom''
      = ([TrackBranches [''bloom'', ''upstream''],
          MakeDirs ''/tmp/bloom/bloom_clone'', Chdir ''/tmp/bloom/bloom_clone'',
          VcsCheckout ''git'' ''/tmp/bloom/bloom_clone'' ''file:///home/user/release'' [],
          TrackBranches [''bloom'', ''upstream'']], Inr ''/tmp/bloom/bloom_clone'')"
    by code_simp
  have valid: "check_for_bloom svn_env ''/tmp/bloom/bloom_clone''
      = ([CheckOutput ''git branch'', GitCheckout ''bloom'',
          PathExists ''/tmp/bloom/bloom_clone/bloom.conf''], Inr ())"
    by code_simp
  have conf: "parse_bloom_conf svn_env
      = ([CheckOutput ''git config -f bloom.conf bloom.upstream'',
          CheckOutput ''git config -f bloom.conf bloom.upstreamtype'',
          CheckOutput ''git config -f bloom.conf bloom.upstreambranch''],
         Inr (''https://svn.example.org/foo'', ''svn'', []))"
    by code_simp
  have ver0: "[] = (case upstream_devel example_args of Some v \<Rightarrow> v | None \<Rightarrow> [])"
    and warn: "[] = (case upstream_devel example_args of
                       Some v \<Rightarrow> [Warning (OverridingBranch v)] | None \<Rightarrow> [])"
    by (simp_all add: example_args_def)
  have url: "''https://svn.example.org/foo/trunk''
               = (if [] = [] \<or> [] = ''(No branch set)'' then ''https://svn.example.org/foo'' @ ''/trunk''
                  else ''https://svn.example.org/foo'' @ ''/branches/'' @ [])"
    by simp
  have svn_dir: "''/tmp/bloom/svn_tag'' = path_join ''/tmp/bloom'' ''svn_tag''"
    and tarball: "''/tmp/bloom/upstream-2.1.0'' = path_join ''/tmp/bloom'' (''upstream-'' @ ''2.1.0'')"
    by (simp_all add: path_join_def)
  have url1: "''https://svn.example.org/foo/tags/2.1.0'' = ''https://svn.example.org/foo'' @ ''/tags/'' @ ''2.1.0''"
    and url2: "''https://svn.example.org/foo/tags/foo-2.1.0''
                 = ''https://svn.example.org/foo'' @ ''/tags/'' @ ''foo'' @ ''-'' @ ''2.1.0''"
    by simp_all
  have ok: "vcs_checkout svn_env 278 ''https://svn.example.org/foo/trunk'' []"
    and miss: "\<not> vcs_checkout svn_env 335 ''https://svn.example.org/foo/tags/2.1.0'' []"
    and hit: "vcs_checkout svn_env 339 ''https://svn.example.org/foo/tags/foo-2.1.0'' []"
    by (simp_all add: svn_env_def)
  have meta: "resolve_meta svn_env example_args (path_join ''/tmp/bloom'' ''upstream'')
      = ([FindPackages ''/tmp/bloom/upstream''],
         Inr \<lparr>meta_name = NameList [''foo''], meta_version = Some ''2.1.0'',
               meta_type = ''package.xml''\<rparr>)"
    by code_simp
  have nv: "name_and_version \<lparr>meta_name = NameList [''foo''], meta_version = Some ''2.1.0'',
                                meta_type = ''package.xml''\<rparr> = ([], Inr (''foo'', ''2.1.0''))"
    by code_simp
  note applied = svn_paths [OF clone valid conf ver0 warn url refl svn_dir url1 url2 tarball,
      where tm = "[FindPackages ''/tmp/bloom/upstream'']" and tn = "[]"]
  from applied ok meta nv miss hit
  have "prefix
     (([TrackBranches [''bloom'', ''upstream''],
          MakeDirs ''/tmp/bloom/bloom_clone'', Chdir ''/tmp/bloom/bloom_clone'',
          VcsCheckout ''git'' ''/tmp/bloom/bloom_clone'' ''file:///home/user/release'' [],
          TrackBranches [''bloom'', ''upstream'']]
       @ [CheckOutput ''git branch'', GitCheckout ''bloom'',
          PathExists ''/tmp/bloom/bloom_clone/bloom.conf'']
       @ [CheckOutput ''git config -f bloom.conf bloom.upstream'',
          CheckOutput ''git config -f bloom.conf bloom.upstreamtype'',
          CheckOutput ''git config -f bloom.conf bloom.upstreambranch'']
       @ [] @ [VcsCheckout ''svn'' (path_join ''/tmp/bloom'' ''upstream'')
                 ''https://svn.example.org/foo/trunk'' []])
      @ [FindPackages ''/tmp/bloom/upstream'']
      @ [VcsCheckout ''svn'' ''/tmp/bloom/svn_tag'' ''https://svn.example.org/foo/tags/2.1.0'' [],
         Warning (TagNotFoundAt ''https://svn.example.org/foo/tags/2.1.0''),
         Warning (Trying ''https://svn.example.org/foo/tags/foo-2.1.0''),
         VcsCheckout ''svn'' ''/tmp/bloom/svn_tag'' ''https://svn.example.org/foo/tags/foo-2.1.0'' [],
         VcsExport ''svn'' ''/tmp/bloom/svn_tag'' [] ''/tmp/bloom/upstream-2.1.0''])
     (fst (import_upstream svn_env ''/home/user/release'' ''/tmp/bloom'' example_args))"
    by blast
  then show ?thesis by (simp add: path_join_def)
qed

section \<open>Packages with different versions\<close>

lemma verify_from_mismatch:
  "q \<in> set ps \<Longrightarrow> pkg_version q \<noteq> v \<Longrightarrow>
   \<exists>w. w \<noteq> v \<and> verify_from (Some v) ps
     = Inl (''Two packages have different version numbers ('' @ w @ '' != '' @ v @ '')'')"
  by (induction ps) auto

lemma verify_equal_mismatch:
  assumes "p \<in> set ps" and "q \<in> set ps" and "pkg_version p \<noteq> pkg_version q"
  shows "\<exists>v w. w \<noteq> v \<and> verify_equal_package_versions ps
     = Inl (''Two packages have different version numbers ('' @ w @ '' != '' @ v @ '')'')"
proof (cases ps)
  case Nil
  with assms show ?thesis by simp
next
  case (Cons p0 rest)
  from assms have "pkg_version p \<noteq> pkg_version p0 \<or> pkg_version q \<noteq> pkg_version p0" by auto
  with assms Cons obtain q' where "q' \<in> set rest" "pkg_version q' \<noteq> pkg_version p0" by auto
  from verify_from_mismatch [OF this] Cons show ?thesis
    by (auto simp: verify_equal_package_versions_def)
qed

lemma resolve_meta_mismatch:
  assumes "\<not> not_catkin a"
    and "verify_equal_package_versions (map snd (find_packages E d)) = Inl err"
  shows "resolve_meta E a d =
           (if catkin_pkg_installed E
            then ([FindPackages d, PrintExc, Error (DifferentVersions err)], Inl (Raise (SystemExit 1)))
            else ([Error CatkinPkgNotDetected], Inl (Raise (SystemExit 1))))"
proof -
  from assms(2) have "find_packages E d \<noteq> []"
    by (auto simp: verify_equal_package_versions_def)
  with assms show ?thesis
    by (simp add: resolve_meta_def get_upstream_meta_def Let_def seq_def emit_def sys_exit_def raise_def)
qed

text \<open>C7. In a run without \<^verbatim>\<open>--not-catkin\<close> whose upstream tree holds two packages
  with different version strings, nothing is ever exported and the run never succeeds.
  Once the upstream tree has been checked out, the run ends in \<^verbatim>\<open>sys.exit(1)\<close>; with
  \<open>catkin_pkg\<close> installed, what happens after the checkout is the search for
  packages, the traceback, and the error that reports two different versions.\<close>

theorem differing_versions_fatal:
  assumes discover: "\<not> not_catkin a"
    and p: "p \<in> set (map snd (find_packages E (path_join tmp_dir ''upstream'')))"
    and q: "q \<in> set (map snd (find_packages E (path_join tmp_dir ''upstream'')))"
    and differ: "pkg_version p \<noteq> pkg_version q"
  shows "(\<forall>tr1 x. fetch E cwd tmp_dir a = (tr1, Inr x) \<longrightarrow>
            snd (import_upstream E cwd tmp_dir a) = Inl (Raise (SystemExit 1))
          \<and> (catkin_pkg_installed E \<longrightarrow>
               (\<exists>v w. w \<noteq> v \<and> import_upstream E cwd tmp_dir a =
                  (tr1 @ [FindPackages (path_join tmp_dir ''upstream''), PrintExc,
                          Error (DifferentVersions
                            (''Two packages have different version numbers ('' @ w @ '' != '' @ v @ '')''))],
                   Inl (Raise (SystemExit 1))))))
       \<and> list_all (\<lambda>ev. \<not> exports ev) (fst (import_upstream E cwd tmp_dir a))
       \<and> snd (import_upstream E cwd tmp_dir a) \<noteq> Inr ()"
proof -
  let ?d = "path_join tmp_dir ''upstream''"
  from verify_equal_mismatch [OF p q differ] obtain v w where vw: "w \<noteq> v"
    and err: "verify_equal_package_versions (map snd (find_packages E ?d))
      = Inl (''Two packages have different version numbers ('' @ w @ '' != '' @ v @ '')'')"
    by blast
  let ?err = "''Two packages have different version numbers ('' @ w @ '' != '' @ v @ '')''"
  note meta = resolve_meta_mismatch [OF discover err]
  have run: "import_upstream E cwd tmp_dir a =
               (tr1 @ fst (resolve_meta E a ?d), Inl (Raise (SystemExit 1)))"
    if "fetch E cwd tmp_dir a = (tr1, Inr x)" for tr1 x
  proof -
    obtain clone_dir upstream_repo upstream_type where x: "x = (clone_dir, upstream_repo, upstream_type)"
      by (cases x) auto
    have "resolve_and_export E tmp_dir a upstream_repo upstream_type
            = (fst (resolve_meta E a ?d), Inl (Raise (SystemExit 1)))"
      by (simp add: resolve_and_export_def meta seq_def)
    with that x show ?thesis by (simp add: import_upstream_def seq_def)
  qed
  have reached: "snd (import_upstream E cwd tmp_dir a) = Inl (Raise (SystemExit 1))
          \<and> (catkin_pkg_installed E \<longrightarrow>
               (\<exists>v w. w \<noteq> v \<and> import_upstream E cwd tmp_dir a =
                  (tr1 @ [FindPackages ?d, PrintExc,
                          Error (DifferentVersions
                            (''Two packages have different version numbers ('' @ w @ '' != '' @ v @ '')''))],
                   Inl (Raise (SystemExit 1)))))"
    if f: "fetch E cwd tmp_dir a = (tr1, Inr x)" for tr1 x
  proof (intro conjI impI)
    show "snd (import_upstream E cwd tmp_dir a) = Inl (Raise (SystemExit 1))"
      by (simp add: run [OF f])
  next
    assume "catkin_pkg_installed E"
    then have "import_upstream E cwd tmp_dir a =
                 (tr1 @ [FindPackages ?d, PrintExc, Error (DifferentVersions ?err)],
                  Inl (Raise (SystemExit 1)))"
      by (simp add: run [OF f] meta)
    with vw show "\<exists>v w. w \<noteq> v \<and> import_upstream E cwd tmp_dir a =
                  (tr1 @ [FindPackages ?d, PrintExc,
                          Error (DifferentVersions
                            (''Two packages have different version numbers ('' @ w @ '' != '' @ v @ '')''))],
                   Inl (Raise (SystemExit 1)))"
      by blast
  qed
  have fetched: "list_all (\<lambda>ev. \<not> exports ev) (fst (fetch E cwd tmp_dir a))"
    using fetch_quiet [of E cwd tmp_dir a] by (auto simp: quiet_def elim: all_weaken)
  obtain tr1 r where f: "fetch E cwd tmp_dir a = (tr1, r)" by (cases "fetch E cwd tmp_dir a")
  have always: "list_all (\<lambda>ev. \<not> exports ev) (fst (import_upstream E cwd tmp_dir a))
          \<and> snd (import_upstream E cwd tmp_dir a) \<noteq> Inr ()"
  proof (cases r)
    case (Inl s)
    with f have "import_upstream E cwd tmp_dir a = (tr1, Inl s)"
      by (simp add: import_upstream_def seq_Inl)
    with f fetched show ?thesis by simp
  next
    case (Inr x)
    with f fetched run [of tr1 x] show ?thesis
      by (simp add: meta exports_def)
  qed
  from reached have "\<forall>tr1 x. fetch E cwd tmp_dir a = (tr1, Inr x) \<longrightarrow>
            snd (import_upstream E cwd tmp_dir a) = Inl (Raise (SystemExit 1))
          \<and> (catkin_pkg_installed E \<longrightarrow>
               (\<exists>v w. w \<noteq> v \<and> import_upstream E cwd tmp_dir a =
                  (tr1 @ [FindPackages ?d, PrintExc,
                          Error (DifferentVersions
                            (''Two packages have different version numbers ('' @ w @ '' != '' @ v @ '')''))],
                   Inl (Raise (SystemExit 1)))))"
    by (intro allI impI)
  with always show ?thesis by (intro conjI) simp_all
qed

text \<open>The example run with the packages \<open>foo\<close> at 1.0.0 and \<open>bar\<close> at 1.0.1.\<close>

theorem differing_versions_fatal_witness:
  "import_upstream
     (example_env\<lparr>find_packages := (\<lambda>dir.
        [(''foo'', \<lparr>pkg_name = ''foo'', pkg_version = ''1.0.0''\<rparr>),
         (''bar'', \<lparr>pkg_name = ''bar'', pkg_version = ''1.0.1''\<rparr>)])\<rparr>)
     ''/home/user/release'' ''/tmp/bloom'' example_args
   = (fst (fetch
        (example_env\<lparr>find_packages := (\<lambda>dir.
           [(''foo'', \<lparr>pkg_name = ''foo'', pkg_version = ''1.0.0''\<rparr>),
            (''bar'', \<lparr>pkg_name = ''bar'', pkg_version = ''1.0.1''\<rparr>)])\<rparr>)
        ''/home/user/release'' ''/tmp/bloom'' example_args)
      @ [FindPackages ''/tmp/bloom/upstream'', PrintExc,
         Error (DifferentVersions ''Two packages have different version numbers (1.0.1 != 1.0.0)'')],
      Inl (Raise (SystemExit 1)))
   \<and> list_all (\<lambda>ev. \<not> exports ev)
        (fst (import_upstream
           (example_env\<lparr>find_packages := (\<lambda>dir.
              [(''foo'', \<lparr>pkg_name = ''foo'', pkg_version = ''1.0.0''\<rparr>),
               (''bar'', \<lparr>pkg_name = ''bar'', pkg_version = ''1.0.1''\<rparr>)])\<rparr>)
           ''/home/user/release'' ''/tmp/bloom'' example_args))"
proof -
  let ?foo = "\<lparr>pkg_name = ''foo'', pkg_version = ''1.0.0''\<rparr>"
  let ?bar = "\<lparr>pkg_name = ''bar'', pkg_version = ''1.0.1''\<rparr>"
  let ?E = "example_env\<lparr>find_packages := (\<lambda>dir. [(''foo'', ?foo), (''bar'', ?bar)])\<rparr>"
  have discover: "\<not> not_catkin example_args" by code_simp
  have p: "?foo \<in> set (map snd (find_packages ?E (path_join ''/tmp/bloom'' ''upstream'')))"
    and q: "?bar \<in> set (map snd (find_packages ?E (path_join ''/tmp/bloom'' ''upstream'')))"
    by simp_all
  have differ: "pkg_version ?foo \<noteq> pkg_version ?bar" by simp
  have f: "snd (fetch ?E ''/home/user/release'' ''/tmp/bloom'' example_args)
             = Inr (''/tmp/bloom/bloom_clone'', ''git://example.org/foo.git'', ''git'')"
    by code_simp
  note applied = differing_versions_fatal [OF discover p q differ, of "''/home/user/release''"]
  from applied have events: "list_all (\<lambda>ev. \<not> exports ev)
        (fst (import_upstream ?E ''/home/user/release'' ''/tmp/bloom'' example_args))"
    by (rule conjunct2 [THEN conjunct1])
  from applied have "\<forall>tr1 x. fetch ?E ''/home/user/release'' ''/tmp/bloom'' example_args = (tr1, Inr x) \<longrightarrow>
            snd (import_upstream ?E ''/home/user/release'' ''/tmp/bloom'' example_args)
              = Inl (Raise (SystemExit 1))
          \<and> (catkin_pkg_installed ?E \<longrightarrow>
               (\<exists>v w. w \<noteq> v \<and> import_upstream ?E ''/home/user/release'' ''/tmp/bloom'' example_args =
                  (tr1 @ [FindPackages (path_join ''/tmp/bloom'' ''upstream''), PrintExc,
                          Error (DifferentVersions
                            (''Two packages have different version numbers ('' @ w @ '' != '' @ v @ '')''))],
                   Inl (Raise (SystemExit 1)))))"
    by (rule conjunct1)
  from this [rule_format, OF reached [OF f]]
  have failed: "snd (import_upstream ?E ''/home/user/release'' ''/tmp/bloom'' example_args)
              = Inl (Raise (SystemExit 1))"
    by (rule conjunct1)
  have all: "import_upstream ?E ''/home/user/release'' ''/tmp/bloom'' example_args
     = (fst (fetch ?E ''/home/user/release'' ''/tmp/bloom'' example_args)
        @ [FindPackages ''/tmp/bloom/upstream'', PrintExc,
           Error (DifferentVersions ''Two packages have different version numbers (1.0.1 != 1.0.0)'')],
        Inl (Raise (SystemExit 1)))"
    using failed reached [OF f]
    by (simp add: prod_eq_iff) code_simp
  from all events show ?thesis by (rule conjI)
qed

section \<open>The importer\<close>

lemma seq_all_reached:
  assumes "list_all P (fst m)" and "\<And>x. snd m = Inr x \<Longrightarrow> list_all P (fst (f x))"
  shows "list_all P (fst (seq m f))"
proof (cases m)
  case (Pair tr r)
  show ?thesis
  proof (cases r)
    case (Inl s)
    with Pair assms(1) show ?thesis by (simp add: seq_def)
  next
    case (Inr x)
    with Pair have "seq m f = (tr @ fst (f x), snd (f x))" by (simp add: seq_Inr)
    with Pair Inr assms(1) assms(2)[of x] show ?thesis by simp
  qed
qed

lemma version_guard_pushes:
  "list_all (\<lambda>ev. is_push ev \<longrightarrow>
              replace a \<and> has_replace E
              \<and> (\<exists>t. get_last_tag_by_date E = Inr t
                     \<and> ev = ExecuteCommand (''git push origin :refs/tags/'' @ t)))
     (fst (version_guard E a v))"
  unfolding version_guard_def Let_def
proof (rule seq_all_reached)
  show "list_all (\<lambda>ev. is_push ev \<longrightarrow>
              replace a \<and> has_replace E
              \<and> (\<exists>t. get_last_tag_by_date E = Inr t
                     \<and> ev = ExecuteCommand (''git push origin :refs/tags/'' @ t)))
          (fst (call GetLastTagByDate (get_last_tag_by_date E)))"
    by (simp add: is_push_def)
next
  fix last_tag
  assume "snd (call GetLastTagByDate (get_last_tag_by_date E)) = Inr last_tag"
  then have known: "get_last_tag_by_date E = Inr last_tag"
    by (cases "get_last_tag_by_date E") (simp_all add: call_def lift_def raise_def continue_def)
  show "list_all (\<lambda>ev. is_push ev \<longrightarrow>
              replace a \<and> has_replace E
              \<and> (\<exists>t. get_last_tag_by_date E = Inr t
                     \<and> ev = ExecuteCommand (''git push origin :refs/tags/'' @ t)))
          (fst (if last_tag = [] then seq (lift (segment_version E v)) unpack3
       else
         seq (seq (lift (get_versions_from_upstream_tag E last_tag)) unpack3)
           (\<lambda>(gbp_major, gbp_minor, gbp_patch).
         seq (lift (StrictVersion v)) (\<lambda>full_version_strict.
         seq (lift (StrictVersion (join ''.'' [gbp_major, gbp_minor, gbp_patch])))
           (\<lambda>last_tag_version_strict.
         seq (lift (compare_objects full_version_strict last_tag_version_strict version_less))
           (\<lambda>is_less.
         seq (if is_less
              then emit (Warning (VersionRegressed v (join ''.'' [gbp_major, gbp_minor, gbp_patch])))
              else continue ()) (\<lambda>_.
         seq (lift (compare_objects full_version_strict last_tag_version_strict version_le))
           (\<lambda>is_less_or_equal.
         seq (if is_less_or_equal then
                (if replace a then
                   (if \<not> has_replace E then
                      seq (emit (Error ReplaceNotSupported)) (\<lambda>_. return_code 1)
                    else
                      seq (emit (Warning (RemovingConflictingTag v))) (\<lambda>_.
                      seq (exec E 382 (''git tag -d '' @ last_tag)) (\<lambda>_.
                      exec E 383 (''git push origin :refs/tags/'' @ last_tag))))
                 else emit (Warning (EqualToPrevious v)))
              else continue ()) (\<lambda>_.
         continue (gbp_major, gbp_minor, gbp_patch))))))))))"
    using known
    by (auto intro!: seq_all simp: unpack3_events is_push_def split: prod.splits)
qed

lemma importer_reached:
  assumes "check_output E 394 ''git branch'' = Inr output"
    and "str_count output ''upstream'' = 0 \<longrightarrow> create_branch E = None"
    and "head = CheckOutput ''git branch''
                # (if str_count output ''upstream'' = 0 then [CreateBranch ''upstream'' True True] else [])
                @ [VcsUpdate ''git'' clone_dir ''master'',
                   ImportOrig (tarball_path @ ''.tar.gz'') (interactive a) (merge a)]"
  shows "importer E a clone_dir tarball_path =
     (case import_orig E (tarball_path @ ''.tar.gz'') (interactive a) (merge a) of
        Inl e \<Rightarrow> (head, Inl (Raise e))
      | Inr rc \<Rightarrow>
          if rc \<noteq> 0 then (head, Inl (Return 1))
          else
            (case execute_command E 408 ''git push --all -f'' of
               Some e \<Rightarrow> (head @ [ExecuteCommand ''git push --all -f''], Inl (Raise e))
             | None \<Rightarrow>
                 (head @ [ExecuteCommand ''git push --all -f'', ExecuteCommand ''git push --tags''],
                  case execute_command E 409 ''git push --tags'' of
                    None \<Rightarrow> Inr ()
                  | Some e \<Rightarrow> Inl (Raise e))))"
  using assms
  by (simp add: importer_def create_initial_upstream_branch_def seq_def call_def call_unit_def
      lift_def continue_def raise_def emit_def return_code_def exec_def
      split: sum.splits option.splits)

text \<open>C8, as the code has it. A run that reaches the importer and gets as far as calling
  \<open>gbp.import_orig\<close> (the branch listing returned; the upstream branch, if it had
  to be created, was): when \<open>import_orig\<close> returns a value other than zero, the run
  ends there with 1; when it raises, the run ends there with that exception. In both
  cases neither \<^verbatim>\<open>git push --all -f\<close> nor \<^verbatim>\<open>git push --tags\<close> occurs anywhere in the
  run, and the only \<^verbatim>\<open>git push\<close> the run can hold is the deletion of the last tag at
  the remote, which the version guard issues with \<^verbatim>\<open>--replace\<close> when git-buildpackage
  can replace. When \<open>import_orig\<close> returns zero, \<^verbatim>\<open>git push --all -f\<close> is issued
  next, in the clone of the original repository, and once that has returned
  \<^verbatim>\<open>git push --tags\<close> is issued, which ends the run.\<close>

theorem import_orig_decides_push:
  assumes reach1: "fetch E cwd tmp_dir a = (tr1, Inr (clone_dir, upstream_repo, upstream_type))"
    and reach2: "resolve_and_export E tmp_dir a upstream_repo upstream_type
                   = (tr2, Inr (version, tarball_path))"
    and guard: "version_guard E a version = (tr3, Inr gbp)"
    and branches: "check_output E 394 ''git branch'' = Inr output"
    and created: "str_count output ''upstream'' = 0 \<longrightarrow> create_branch E = None"
    and pre: "pre = tr1 @ tr2 @ tr3 @ CheckOutput ''git branch''
                # (if str_count output ''upstream'' = 0 then [CreateBranch ''upstream'' True True] else [])
                @ [VcsUpdate ''git'' clone_dir ''master'',
                   ImportOrig (tarball_path @ ''.tar.gz'') (interactive a) (merge a)]"
    and signal: "signal = import_orig E (tarball_path @ ''.tar.gz'') (interactive a) (merge a)"
  shows "(\<forall>rc. signal = Inr rc \<and> rc \<noteq> 0 \<longrightarrow> import_upstream E cwd tmp_dir a = (pre, Inl (Return 1)))
       \<and> (\<forall>e. signal = Inl e \<longrightarrow> import_upstream E cwd tmp_dir a = (pre, Inl (Raise e)))
       \<and> (signal \<noteq> Inr 0 \<longrightarrow> list_all (\<lambda>ev. \<not> pushes ev) (fst (import_upstream E cwd tmp_dir a)))
       \<and> (signal \<noteq> Inr 0 \<longrightarrow>
            list_all (\<lambda>ev. is_push ev \<longrightarrow>
                        replace a \<and> has_replace E
                        \<and> (\<exists>t. get_last_tag_by_date E = Inr t
                               \<and> ev = ExecuteCommand (''git push origin :refs/tags/'' @ t)))
              (fst (import_upstream E cwd tmp_dir a)))
       \<and> (signal = Inr 0 \<longrightarrow>
            prefix (pre @ [ExecuteCommand ''git push --all -f'']) (fst (import_upstream E cwd tmp_dir a))
          \<and> (execute_command E 408 ''git push --all -f'' = None \<longrightarrow>
               import_upstream E cwd tmp_dir a =
                 (pre @ [ExecuteCommand ''git push --all -f'', ExecuteCommand ''git push --tags''],
                  case execute_command E 409 ''git push --tags'' of
                    None \<Rightarrow> Inr ()
                  | Some e \<Rightarrow> Inl (Raise e))))"
proof -
  let ?head = "CheckOutput ''git branch''
                # (if str_count output ''upstream'' = 0 then [CreateBranch ''upstream'' True True] else [])
                @ [VcsUpdate ''git'' clone_dir ''master'',
                   ImportOrig (tarball_path @ ''.tar.gz'') (interactive a) (merge a)]"
  note imp = importer_reached [OF branches created refl, where clone_dir = clone_dir and tarball_path = tarball_path and a = a]
  have run: "import_upstream E cwd tmp_dir a =
               (tr1 @ tr2 @ tr3 @ fst (importer E a clone_dir tarball_path),
                snd (importer E a clone_dir tarball_path))"
    by (simp add: import_upstream_reached [OF reach1 reach2] guard seq_Inr)
  have nonzero: "import_upstream E cwd tmp_dir a = (pre, Inl (Return 1))"
    if "signal = Inr rc \<and> rc \<noteq> 0" for rc
    using that signal by (simp add: run imp pre)
  have raised: "import_upstream E cwd tmp_dir a = (pre, Inl (Raise e))"
    if "signal = Inl e" for e
    using that signal by (simp add: run imp pre)
  have quiet_pre: "list_all (\<lambda>ev. \<not> pushes ev) pre"
  proof -
    have "list_all (\<lambda>ev. \<not> pushes ev) tr1"
      using fetch_quiet [of E cwd tmp_dir a] reach1 by (auto simp: quiet_def elim: all_weaken)
    moreover have "list_all (\<lambda>ev. \<not> pushes ev) tr2"
      using resolve_and_export_events [of E tmp_dir a upstream_repo upstream_type] reach2
      by (auto simp: keeps_refs_def elim: all_weaken)
    moreover have "list_all (\<lambda>ev. \<not> pushes ev) tr3"
      using version_guard_events [of E a version] guard by simp
    ultimately show ?thesis by (simp add: pre pushes_def)
  qed
  have silent: "list_all (\<lambda>ev. \<not> pushes ev) (fst (import_upstream E cwd tmp_dir a))"
    if "signal \<noteq> Inr 0"
  proof (cases signal)
    case (Inl e)
    with raised quiet_pre show ?thesis by simp
  next
    case (Inr rc)
    with that have "rc \<noteq> 0" by simp
    with Inr nonzero quiet_pre show ?thesis by simp
  qed
  let ?only = "\<lambda>ev. is_push ev \<longrightarrow>
                        replace a \<and> has_replace E
                        \<and> (\<exists>t. get_last_tag_by_date E = Inr t
                               \<and> ev = ExecuteCommand (''git push origin :refs/tags/'' @ t))"
  have only_pre: "list_all ?only pre"
  proof -
    have "list_all ?only tr1"
      using fetch_quiet [of E cwd tmp_dir a] reach1 by (auto simp: quiet_def elim: all_weaken)
    moreover have "list_all ?only tr2"
      using resolve_and_export_events [of E tmp_dir a upstream_repo upstream_type] reach2
      by (auto simp: keeps_refs_def elim: all_weaken)
    moreover have "list_all ?only tr3"
      using version_guard_pushes [of a E version] guard by simp
    ultimately show ?thesis by (simp add: pre is_push_def)
  qed
  have deletion_only: "list_all ?only (fst (import_upstream E cwd tmp_dir a))"
    if "signal \<noteq> Inr 0"
  proof (cases signal)
    case (Inl e)
    with raised only_pre show ?thesis by simp
  next
    case (Inr rc)
    with that have "rc \<noteq> 0" by simp
    with Inr nonzero only_pre show ?thesis by simp
  qed
  have pushed: "prefix (pre @ [ExecuteCommand ''git push --all -f'']) (fst (import_upstream E cwd tmp_dir a))
          \<and> (execute_command E 408 ''git push --all -f'' = None \<longrightarrow>
               import_upstream E cwd tmp_dir a =
                 (pre @ [ExecuteCommand ''git push --all -f'', ExecuteCommand ''git push --tags''],
                  case execute_command E 409 ''git push --tags'' of
                    None \<Rightarrow> Inr ()
                  | Some e \<Rightarrow> Inl (Raise e)))"
    if "signal = Inr 0"
    using that signal by (simp add: run imp pre split: option.splits)
  from nonzero raised silent deletion_only pushed show ?thesis by (intro conjI allI impI) simp_all
qed


text \<open>The example run, and the same run with \<open>import_orig\<close> returning 1.\<close>

theorem import_orig_decides_push_witness:
  "import_upstream example_env ''/home/user/release'' ''/tmp/bloom'' example_args
     = (fst (fetch example_env ''/home/user/release'' ''/tmp/bloom'' example_args)
        @ fst (resolve_and_export example_env ''/tmp/bloom'' example_args ''git://example.org/foo.git'' ''git'')
        @ [GetLastTagByDate, Warning (EqualToPrevious ''1.0.0''),
           CheckOutput ''git branch'', VcsUpdate ''git'' ''/tmp/bloom/bloom_clone'' ''master'',
           ImportOrig ''/tmp/bloom/upstream-1.0.0.tar.gz'' False False,
           ExecuteCommand ''git push --all -f'', ExecuteCommand ''git push --tags''],
        Inr ())
   \<and> snd (import_upstream (example_env\<lparr>import_orig := (\<lambda>path i m. Inr 1)\<rparr>)
            ''/home/user/release'' ''/tmp/bloom'' example_args) = Inl (Return 1)
   \<and> list_all (\<lambda>ev. \<not> pushes ev)
        (fst (import_upstream (example_env\<lparr>import_orig := (\<lambda>path i m. Inr 1)\<rparr>)
                ''/home/user/release'' ''/tmp/bloom'' example_args))"
proof -
  let ?E = "example_env\<lparr>import_orig := (\<lambda>path i m. Inr 1)\<rparr>"
  let ?out = "''  bloom\<newline>* master\<newline>  upstream\<newline>''"
  have f: "snd (fetch example_env ''/home/user/release'' ''/tmp/bloom'' example_args)
             = Inr (''/tmp/bloom/bloom_clone'', ''git://example.org/foo.git'', ''git'')"
    and f': "snd (fetch ?E ''/home/user/release'' ''/tmp/bloom'' example_args)
             = Inr (''/tmp/bloom/bloom_clone'', ''git://example.org/foo.git'', ''git'')"
    by code_simp+
  have r: "snd (resolve_and_export example_env ''/tmp/bloom'' example_args ''git://example.org/foo.git'' ''git'')
             = Inr (''1.0.0'', ''/tmp/bloom/upstream-1.0.0'')"
    and r': "snd (resolve_and_export ?E ''/tmp/bloom'' example_args ''git://example.org/foo.git'' ''git'')
             = Inr (''1.0.0'', ''/tmp/bloom/upstream-1.0.0'')"
    by code_simp+
  have g: "version_guard example_env example_args ''1.0.0''
             = ([GetLastTagByDate, Warning (EqualToPrevious ''1.0.0'')], Inr (''1'', ''0'', ''0''))"
    and g': "version_guard ?E example_args ''1.0.0''
             = ([GetLastTagByDate, Warning (EqualToPrevious ''1.0.0'')], Inr (''1'', ''0'', ''0''))"
    by code_simp+
  have b: "check_output example_env 394 ''git branch'' = Inr ?out"
    and b': "check_output ?E 394 ''git branch'' = Inr ?out"
    by (simp_all add: example_env_def)
  have c: "str_count ?out ''upstream'' = 0 \<longrightarrow> create_branch example_env = None"
    and c': "str_count ?out ''upstream'' = 0 \<longrightarrow> create_branch ?E = None"
    by (simp_all add: example_env_def)
  have n: "str_count ?out ''upstream'' \<noteq> 0" by code_simp
  have zero: "import_orig example_env (''/tmp/bloom/upstream-1.0.0'' @ ''.tar.gz'')
                (interactive example_args) (merge example_args) = Inr 0"
    and one: "import_orig ?E (''/tmp/bloom/upstream-1.0.0'' @ ''.tar.gz'')
                (interactive example_args) (merge example_args) = Inr 1"
    and x: "execute_command example_env 408 ''git push --all -f'' = None"
           "execute_command example_env 409 ''git push --tags'' = None"
    and fl: "interactive example_args = False" "merge example_args = False"
    by (simp_all add: example_env_def example_args_def)
  note yes = import_orig_decides_push [OF reached [OF f] reached [OF r] g b c refl refl]
  note no = import_orig_decides_push [OF reached [OF f'] reached [OF r'] g' b' c' refl refl]
  from yes zero x n fl
  have 1: "import_upstream example_env ''/home/user/release'' ''/tmp/bloom'' example_args
     = (fst (fetch example_env ''/home/user/release'' ''/tmp/bloom'' example_args)
        @ fst (resolve_and_export example_env ''/tmp/bloom'' example_args ''git://example.org/foo.git'' ''git'')
        @ [GetLastTagByDate, Warning (EqualToPrevious ''1.0.0''),
           CheckOutput ''git branch'', VcsUpdate ''git'' ''/tmp/bloom/bloom_clone'' ''master'',
           ImportOrig ''/tmp/bloom/upstream-1.0.0.tar.gz'' False False,
           ExecuteCommand ''git push --all -f'', ExecuteCommand ''git push --tags''],
        Inr ())"
    by simp
  from no one
  have 2: "snd (import_upstream ?E ''/home/user/release'' ''/tmp/bloom'' example_args) = Inl (Return 1)"
    by simp
  from no
  have "import_orig ?E (''/tmp/bloom/upstream-1.0.0'' @ ''.tar.gz'')
          (interactive example_args) (merge example_args) \<noteq> Inr 0 \<longrightarrow>
        list_all (\<lambda>ev. \<not> pushes ev)
          (fst (import_upstream ?E ''/home/user/release'' ''/tmp/bloom'' example_args))"
    by (rule conjunct2 [THEN conjunct2, THEN conjunct1])
  moreover have "import_orig ?E (''/tmp/bloom/upstream-1.0.0'' @ ''.tar.gz'')
          (interactive example_args) (merge example_args) \<noteq> Inr 0"
    by (simp add: one)
  ultimately
  have 3: "list_all (\<lambda>ev. \<not> pushes ev)
             (fst (import_upstream ?E ''/home/user/release'' ''/tmp/bloom'' example_args))"
    by (rule mp)
  from 1 2 3 show ?thesis by (intro conjI)
qed

text \<open>The example run with \<^verbatim>\<open>--replace\<close> and \<open>import_orig\<close> returning 1: the tag
  has been deleted at the remote, by a push, before \<open>import_orig\<close> is called.\<close>

theorem import_orig_push_counterexample:
  "import_upstream (example_env\<lparr>import_orig := (\<lambda>path i m. Inr 1)\<rparr>)
     ''/home/user/release'' ''/tmp/bloom'' (example_args\<lparr>replace := True\<rparr>)
   = ([TrackBranches [''bloom'', ''upstream''],
       MakeDirs ''/tmp/bloom/bloom_clone'', Chdir ''/tmp/bloom/bloom_clone'',
       VcsCheckout ''git'' ''/tmp/bloom/bloom_clone'' ''file:///home/user/release'' [],
       TrackBranches [''bloom'', ''upstream''], CheckOutput ''git branch'',
       GitCheckout ''bloom'', PathExists ''/tmp/bloom/bloom_clone/bloom.conf'',
       CheckOutput ''git config -f bloom.conf bloom.upstream'',
       CheckOutput ''git config -f bloom.conf bloom.upstreamtype'',
       CheckOutput ''git config -f bloom.conf bloom.upstreambranch'',
       VcsCheckout ''git'' ''/tmp/bloom/upstream'' ''git://example.org/foo.git'' [],
       FindPackages ''/tmp/bloom/upstream'',
       VcsExport ''git'' ''/tmp/bloom/upstream'' ''1.0.0'' ''/tmp/bloom/upstream-1.0.0'',
       GetLastTagByDate, Warning (RemovingConflictingTag ''1.0.0''),
       ExecuteCommand ''git tag -d upstream/1.0.0'',
       ExecuteCommand ''git push origin :refs/tags/upstream/1.0.0'',
       CheckOutput ''git branch'',
       VcsUpdate ''git'' ''/tmp/bloom/bloom_clone'' ''master'',
       ImportOrig ''/tmp/bloom/upstream-1.0.0.tar.gz'' False False],
      Inl (Return 1))
   \<and> is_push (ExecuteCommand ''git push origin :refs/tags/upstream/1.0.0'')"
  by code_simp

section \<open>Cleaning up\<close>

lemma restore_events:
  "fst (restore E cwd tmp_dir current_branch) =
     Chdir cwd
     # (if chdir E 528 cwd = None then
          Rmtree tmp_dir
          # (if rmtree E tmp_dir = None then
               (case current_branch of
                  None \<Rightarrow> []
                | Some b \<Rightarrow>
                    if b = [] then []
                    else BranchExists b
                         # (if branch_exists E b = Inr True then [GitCheckout b] else []))
             else [])
        else [])"
  by (cases "branch_exists E (the current_branch)")
     (auto simp: restore_def seq_def emit_def continue_def call_def lift_def raise_def
       git_checkout_def call_unit_def split: option.splits sum.splits)

lemma restore_raises:
  "chdir E 528 cwd = Some e \<Longrightarrow> snd (restore E cwd tmp_dir current_branch) = Inl (Raise e)"
  "chdir E 528 cwd = None \<Longrightarrow> rmtree E tmp_dir = Some e \<Longrightarrow>
   snd (restore E cwd tmp_dir current_branch) = Inl (Raise e)"
  by (simp_all add: restore_def seq_def call_unit_def)

lemma try_finally_events: "fst (try_finally body cleanup) = fst body @ fst cleanup"
  by (cases body; cases cleanup; cases "snd cleanup") (auto simp: try_finally_def)

lemma try_finally_result:
  "snd (try_finally body cleanup) = (case snd cleanup of Inl s \<Rightarrow> Inl s | Inr u \<Rightarrow> snd body)"
  by (cases body; cases cleanup; cases "snd cleanup") (auto simp: try_finally_def)

text \<open>C9, as the code has it. A run of \<open>main\<close> that has passed its checks, has created
  the temporary directory and has been told its working directory: however
  \<open>import_upstream\<close> ends, by returning, by \<^verbatim>\<open>sys.exit\<close> or by any other exception,
  what follows its events is the change back to the original working directory; if that
  returns, the removal of the temporary directory; and if that returns too, for a branch
  name that is neither \<^verbatim>\<open>None\<close> nor empty, the question whether that branch exists
  and, if it does, its checkout. Nothing comes after that. A step of this cleanup that
  raises ends the run with its exception, the later steps left out. Otherwise the outcome
  of \<open>import_upstream\<close> is the outcome of the run, unless the restoring of the branch
  raises.\<close>

theorem cleanup_on_every_exit:
  assumes root: "get_root E \<noteq> None"
    and branch: "get_current_branch E = Inr current_branch"
    and elsewhere: "current_branch \<noteq> Some ''upstream''"
    and tmp: "create_temporary_directory E = Inr tmp_dir"
    and here: "getcwd E = Inr cwd"
  shows "fst (main E a) =
           [GetRoot, GetCurrentBranch, CreateTemporaryDirectory, GetCwd]
           @ fst (import_upstream E cwd tmp_dir a)
           @ Chdir cwd
             # (if chdir E 528 cwd = None then
                  Rmtree tmp_dir
                  # (if rmtree E tmp_dir = None then
                       (case current_branch of
                          None \<Rightarrow> []
                        | Some b \<Rightarrow>
                            if b = [] then []
                            else BranchExists b
                                 # (if branch_exists E b = Inr True then [GitCheckout b] else []))
                     else [])
                else [])
       \<and> snd (main E a) =
           (case snd (restore E cwd tmp_dir current_branch) of
              Inl s \<Rightarrow> Inl s
            | Inr u \<Rightarrow> snd (import_upstream E cwd tmp_dir a))
       \<and> (\<forall>e. chdir E 528 cwd = Some e \<longrightarrow> snd (main E a) = Inl (Raise e))
       \<and> (\<forall>e. chdir E 528 cwd = None \<and> rmtree E tmp_dir = Some e \<longrightarrow>
              snd (main E a) = Inl (Raise e))"
proof -
  have "main E a =
          ([GetRoot, GetCurrentBranch, CreateTemporaryDirectory, GetCwd]
             @ fst (try_finally (import_upstream E cwd tmp_dir a)
                      (restore E cwd tmp_dir current_branch)),
           snd (try_finally (import_upstream E cwd tmp_dir a)
                  (restore E cwd tmp_dir current_branch)))"
    using assms
    by (simp add: main_def seq_def emit_def call_def lift_def continue_def split: prod.splits)
  then have events: "fst (main E a) =
           [GetRoot, GetCurrentBranch, CreateTemporaryDirectory, GetCwd]
           @ fst (import_upstream E cwd tmp_dir a) @ fst (restore E cwd tmp_dir current_branch)"
    and outcome: "snd (main E a) =
           (case snd (restore E cwd tmp_dir current_branch) of
              Inl s \<Rightarrow> Inl s
            | Inr u \<Rightarrow> snd (import_upstream E cwd tmp_dir a))"
    by (simp_all add: try_finally_events try_finally_result)
  from outcome have "\<forall>e. chdir E 528 cwd = Some e \<longrightarrow> snd (main E a) = Inl (Raise e)"
    by (simp add: restore_raises)
  moreover
  from outcome have "\<forall>e. chdir E 528 cwd = None \<and> rmtree E tmp_dir = Some e \<longrightarrow>
              snd (main E a) = Inl (Raise e)"
    by (simp add: restore_raises)
  moreover note outcome
  moreover from events have "fst (main E a) =
           [GetRoot, GetCurrentBranch, CreateTemporaryDirectory, GetCwd]
           @ fst (import_upstream E cwd tmp_dir a)
           @ Chdir cwd
             # (if chdir E 528 cwd = None then
                  Rmtree tmp_dir
                  # (if rmtree E tmp_dir = None then
                       (case current_branch of
                          None \<Rightarrow> []
                        | Some b \<Rightarrow>
                            if b = [] then []
                            else BranchExists b
                                 # (if branch_exists E b = Inr True then [GitCheckout b] else []))
                     else [])
                else [])"
    by (simp only: restore_events)
  ultimately show ?thesis by (intro conjI)
qed

text \<open>The example run, which succeeds, and a run that ends in \<^verbatim>\<open>sys.exit(1)\<close> because
  no manifest is found.\<close>

theorem cleanup_on_every_exit_witness:
  "main example_env example_args
     = ([GetRoot, GetCurrentBranch, CreateTemporaryDirectory, GetCwd]
        @ fst (import_upstream example_env ''/home/user/release'' ''/tmp/bloom'' example_args)
        @ [Chdir ''/home/user/release'', Rmtree ''/tmp/bloom'', BranchExists ''master'',
           GitCheckout ''master''],
        Inr ())
   \<and> main (example_env\<lparr>find_packages := (\<lambda>dir. []), has_rospkg := False\<rparr>) example_args
     = ([GetRoot, GetCurrentBranch, CreateTemporaryDirectory, GetCwd]
        @ fst (import_upstream (example_env\<lparr>find_packages := (\<lambda>dir. []), has_rospkg := False\<rparr>)
                 ''/home/user/release'' ''/tmp/bloom'' example_args)
        @ [Chdir ''/home/user/release'', Rmtree ''/tmp/bloom'', BranchExists ''master'',
           GitCheckout ''master''],
        Inl (Raise (SystemExit 1)))"
proof -
  let ?E = "example_env\<lparr>find_packages := (\<lambda>dir. []), has_rospkg := False\<rparr>"
  have root: "get_root example_env \<noteq> None" "get_root ?E \<noteq> None"
    and branch: "get_current_branch example_env = Inr (Some ''master'')"
                "get_current_branch ?E = Inr (Some ''master'')"
    and tmp: "create_temporary_directory example_env = Inr ''/tmp/bloom''"
             "create_temporary_directory ?E = Inr ''/tmp/bloom''"
    and here: "getcwd example_env = Inr ''/home/user/release''" "getcwd ?E = Inr ''/home/user/release''"
    and changed: "chdir example_env 528 ''/home/user/release'' = None"
              "chdir ?E 528 ''/home/user/release'' = None"
    and gone: "rmtree example_env ''/tmp/bloom'' = None" "rmtree ?E ''/tmp/bloom'' = None"
    and there: "branch_exists example_env ''master'' = Inr True" "branch_exists ?E ''master'' = Inr True"
    by (simp_all add: example_env_def)
  have elsewhere: "Some ''master'' \<noteq> Some ''upstream''" by simp
  have restored: "snd (restore example_env ''/home/user/release'' ''/tmp/bloom'' (Some ''master'')) = Inr ()"
                 "snd (restore ?E ''/home/user/release'' ''/tmp/bloom'' (Some ''master'')) = Inr ()"
    by code_simp+
  have ok: "snd (import_upstream example_env ''/home/user/release'' ''/tmp/bloom'' example_args) = Inr ()"
    and bad: "snd (import_upstream ?E ''/home/user/release'' ''/tmp/bloom'' example_args)
                = Inl (Raise (SystemExit 1))"
    by code_simp+
  from cleanup_on_every_exit [OF root(1) branch(1) elsewhere tmp(1) here(1), of example_args]
       changed(1) gone(1) there(1) restored(1) ok
  have first: "main example_env example_args
     = ([GetRoot, GetCurrentBranch, CreateTemporaryDirectory, GetCwd]
        @ fst (import_upstream example_env ''/home/user/release'' ''/tmp/bloom'' example_args)
        @ [Chdir ''/home/user/release'', Rmtree ''/tmp/bloom'', BranchExists ''master'',
           GitCheckout ''master''],
        Inr ())"
    by (simp add: prod_eq_iff)
  from cleanup_on_every_exit [OF root(2) branch(2) elsewhere tmp(2) here(2), of example_args]
       changed(2) gone(2) there(2) restored(2) bad
  have second: "main ?E example_args
     = ([GetRoot, GetCurrentBranch, CreateTemporaryDirectory, GetCwd]
        @ fst (import_upstream ?E ''/home/user/release'' ''/tmp/bloom'' example_args)
        @ [Chdir ''/home/user/release'', Rmtree ''/tmp/bloom'', BranchExists ''master'',
           GitCheckout ''master''],
        Inl (Raise (SystemExit 1)))"
    by (simp add: prod_eq_iff)
  from first second show ?thesis by (rule conjI)
qed

text \<open>The example run when the removal of the temporary directory raises: the branch
  \<open>master\<close>, which still exists, is not checked out again. And a run in which the
  working directory cannot be told: the temporary directory has been created and nothing
  removes it.\<close>

theorem cleanup_counterexample:
  "branch_exists (example_env\<lparr>rmtree := (\<lambda>path. Some OSError)\<rparr>) ''master'' = Inr True
   \<and> main (example_env\<lparr>rmtree := (\<lambda>path. Some OSError)\<rparr>) example_args
     = ([GetRoot, GetCurrentBranch, CreateTemporaryDirectory, GetCwd,
         TrackBranches [''bloom'', ''upstream''],
         MakeDirs ''/tmp/bloom/bloom_clone'', Chdir ''/tmp/bloom/bloom_clone'',
         VcsCheckout ''git'' ''/tmp/bloom/bloom_clone'' ''file:///home/user/release'' [],
         TrackBranches [''bloom'', ''upstream''], CheckOutput ''git branch'',
         GitCheckout ''bloom'', PathExists ''/tmp/bloom/bloom_clone/bloom.conf'',
         CheckOutput ''git config -f bloom.conf bloom.upstream'',
         CheckOutput ''git config -f bloom.conf bloom.upstreamtype'',
         CheckOutput ''git config -f bloom.conf bloom.upstreambranch'',
         VcsCheckout ''git'' ''/tmp/bloom/upstream'' ''git://example.org/foo.git'' [],
         FindPackages ''/tmp/bloom/upstream'',
         VcsExport ''git'' ''/tmp/bloom/upstream'' ''1.0.0'' ''/tmp/bloom/upstream-1.0.0'',
         GetLastTagByDate, Warning (EqualToPrevious ''1.0.0''),
         CheckOutput ''git branch'',
         VcsUpdate ''git'' ''/tmp/bloom/bloom_clone'' ''master'',
         ImportOrig ''/tmp/bloom/upstream-1.0.0.tar.gz'' False False,
         ExecuteCommand ''git push --all -f'',
         ExecuteCommand ''git push --tags'',
         Chdir ''/home/user/release'', Rmtree ''/tmp/bloom''],
        Inl (Raise OSError))
   \<and> main (example_env\<lparr>getcwd := Inl OSError\<rparr>) example_args
     = ([GetRoot, GetCurrentBranch, CreateTemporaryDirectory, GetCwd], Inl (Raise OSError))"
  by code_simp

section \<open>Branch presence\<close>

lemma str_count_unfold:
  "sub \<noteq> [] \<Longrightarrow> s \<noteq> [] \<Longrightarrow>
   str_count s sub = (if prefix sub s then 1 + str_count (drop (length sub) s) sub
                      else str_count (tl s) sub)"
  by (subst str_count.simps) simp

lemma str_count_zero_iff:
  "sub \<noteq> [] \<Longrightarrow> str_count s sub = 0 \<longleftrightarrow> \<not> sublist sub s"
proof (induction s sub rule: str_count.induct)
  case (1 s sub)
  show ?case
  proof (cases "s = []")
    case True
    with 1(3) show ?thesis by (simp add: str_count.simps)
  next
    case nonempty: False
    show ?thesis
    proof (cases "prefix sub s")
      case True
      then have "sublist sub s" by (rule prefix_imp_sublist)
      with True 1(3) nonempty show ?thesis by (simp add: str_count_unfold)
    next
      case False
      from 1(2)[OF 1(3) nonempty False] 1(3)
      have "str_count (tl s) sub = 0 \<longleftrightarrow> \<not> sublist sub (tl s)" by simp
      moreover from nonempty obtain c cs where "s = c # cs" by (cases s) auto
      ultimately show ?thesis using False 1(3) nonempty
        by (simp add: str_count_unfold sublist_Cons_right)
    qed
  qed
qed

text \<open>C10. Whether a branch is there is decided by \<^verbatim>\<open>count\<close> on the text that
  \<^verbatim>\<open>git branch\<close> prints, that is, by whether the name occurs anywhere in that text.
  The validator: when \<open>bloom\<close> occurs in the text, it goes straight on to the
  checkout of \<open>bloom\<close>, and passes if that and the configuration file are there;
  when only \<open>catkin\<close> occurs, it starts the conversion; when neither occurs, it
  rejects the repository. The importer creates the orphan \<open>upstream\<close> branch exactly
  when \<open>upstream\<close> does not occur in the text. A branch whose name merely contains
  one of these words is therefore taken for the branch itself.\<close>

theorem branch_presence_by_substring:
  assumes listed: "check_output E 122 ''git branch'' = Inr branches"
    and listed_again: "check_output E 394 ''git branch'' = Inr output"
  shows "(sublist ''bloom'' branches \<and> checkout E 134 ''bloom'' = None
            \<and> path_exists E 138 (path_join cwd ''bloom.conf'') \<longrightarrow>
          check_for_bloom E cwd =
            ([CheckOutput ''git branch'', GitCheckout ''bloom'',
              PathExists (path_join cwd ''bloom.conf'')], Inr ()))
       \<and> (\<not> sublist ''bloom'' branches \<and> sublist ''catkin'' branches \<longrightarrow>
            prefix [CheckOutput ''git branch'', ExecuteCommand ''git branch -m catkin bloom'']
              (fst (check_for_bloom E cwd)))
       \<and> (\<not> sublist ''bloom'' branches \<and> \<not> sublist ''catkin'' branches \<longrightarrow>
            check_for_bloom E cwd =
              ([CheckOutput ''git branch'', Error NotABloomRepo], Inl (Raise (SystemExit 1))))
       \<and> (CreateBranch ''upstream'' True True \<in> set (fst (importer E a clone_dir tarball_path))
            \<longleftrightarrow> \<not> sublist ''upstream'' output)"
proof -
  have bloom: "str_count branches ''bloom'' = 0 \<longleftrightarrow> \<not> sublist ''bloom'' branches"
    and catkin: "str_count branches ''catkin'' = 0 \<longleftrightarrow> \<not> sublist ''catkin'' branches"
    and upstream: "str_count output ''upstream'' = 0 \<longleftrightarrow> \<not> sublist ''upstream'' output"
    by (simp_all add: str_count_zero_iff)
  have passes: "check_for_bloom E cwd =
            ([CheckOutput ''git branch'', GitCheckout ''bloom'',
              PathExists (path_join cwd ''bloom.conf'')], Inr ())"
    if "sublist ''bloom'' branches \<and> checkout E 134 ''bloom'' = None
            \<and> path_exists E 138 (path_join cwd ''bloom.conf'')"
    using that listed bloom
    by (simp add: check_for_bloom_def Let_def seq_def call_def lift_def continue_def
        except_CalledProcessError_def git_checkout_def call_unit_def os_path_exists_def)
  have converts: "prefix [CheckOutput ''git branch'', ExecuteCommand ''git branch -m catkin bloom'']
              (fst (check_for_bloom E cwd))"
    if "\<not> sublist ''bloom'' branches \<and> sublist ''catkin'' branches"
  proof -
    have start: "\<exists>rest r. convert_catkin_to_bloom E cwd
                   = (ExecuteCommand ''git branch -m catkin bloom'' # rest, r)"
      by (cases "execute_command E 91 ''git branch -m catkin bloom''")
         (auto simp: convert_catkin_to_bloom_def seq_def exec_def call_unit_def split: prod.splits)
    then obtain rest r where c: "convert_catkin_to_bloom E cwd
                   = (ExecuteCommand ''git branch -m catkin bloom'' # rest, r)" by blast
    from that listed bloom catkin c show ?thesis
      by (cases r)
         (auto simp: check_for_bloom_def Let_def seq_def call_def lift_def continue_def
           split: prod.splits)
  qed
  have rejects: "check_for_bloom E cwd =
              ([CheckOutput ''git branch'', Error NotABloomRepo], Inl (Raise (SystemExit 1)))"
    if "\<not> sublist ''bloom'' branches \<and> \<not> sublist ''catkin'' branches"
    using that listed bloom catkin
    by (simp add: check_for_bloom_def Let_def seq_def call_def lift_def continue_def
        not_a_bloom_release_repo_def emit_def sys_exit_def raise_def)
  have creates: "CreateBranch ''upstream'' True True \<in> set (fst (importer E a clone_dir tarball_path))
            \<longleftrightarrow> \<not> sublist ''upstream'' output"
    using listed_again upstream
    by (cases "create_branch E";
        cases "import_orig E (tarball_path @ ''.tar.gz'') (interactive a) (merge a)";
        cases "execute_command E 408 ''git push --all -f''";
        cases "execute_command E 409 ''git push --tags''")
       (simp_all add: importer_def create_initial_upstream_branch_def seq_def call_def
         call_unit_def lift_def continue_def raise_def emit_def return_code_def exec_def)
  from passes converts rejects creates show ?thesis by (intro conjI impI)
qed


text \<open>A listing with the single branch \<open>bloomer\<close> passes the validator, and a
  listing with \<open>master\<close> and \<open>upstream-old\<close> keeps the importer from creating
  \<open>upstream\<close>.\<close>

theorem branch_presence_by_substring_witness:
  "check_output bloomer_env 122 ''git branch'' = Inr ''* bloomer\<newline>''
   \<and> check_output bloomer_env 394 ''git branch'' = Inr ''* master\<newline>  upstream-old\<newline>''
   \<and> check_for_bloom bloomer_env ''/tmp/bloom/bloom_clone''
       = ([CheckOutput ''git branch'', GitCheckout ''bloom'',
           PathExists ''/tmp/bloom/bloom_clone/bloom.conf''], Inr ())
   \<and> CreateBranch ''upstream'' True True
       \<notin> set (fst (importer bloomer_env example_args ''/tmp/bloom/bloom_clone''
                     ''/tmp/bloom/upstream-1.0.0''))"
proof -
  have listed: "check_output bloomer_env 122 ''git branch'' = Inr ''* bloomer\<newline>''"
    and listed_again: "check_output bloomer_env 394 ''git branch''
                         = Inr ''* master\<newline>  upstream-old\<newline>''"
    by (simp_all add: bloomer_env_def)
  have "str_count ''* bloomer\<newline>'' ''bloom'' \<noteq> 0"
    and "str_count ''* master\<newline>  upstream-old\<newline>'' ''upstream'' \<noteq> 0"
    by code_simp+
  then have inside: "sublist ''bloom'' ''* bloomer\<newline>''"
    and inside_again: "sublist ''upstream'' ''* master\<newline>  upstream-old\<newline>''"
    by (simp_all add: str_count_zero_iff)
  have works: "checkout bloomer_env 134 ''bloom'' = None"
    and conf: "path_exists bloomer_env 138 (path_join ''/tmp/bloom/bloom_clone'' ''bloom.conf'')"
    by (simp_all add: bloomer_env_def example_env_def)
  note applied = branch_presence_by_substring [OF listed listed_again,
      of "''/tmp/bloom/bloom_clone''" example_args "''/tmp/bloom/bloom_clone''"
         "''/tmp/bloom/upstream-1.0.0''"]
  from applied inside works conf
  have passes: "check_for_bloom bloomer_env ''/tmp/bloom/bloom_clone''
       = ([CheckOutput ''git branch'', GitCheckout ''bloom'',
           PathExists (path_join ''/tmp/bloom/bloom_clone'' ''bloom.conf'')], Inr ())"
    by blast
  from applied inside_again
  have skipped: "CreateBranch ''upstream'' True True
       \<notin> set (fst (importer bloomer_env example_args ''/tmp/bloom/bloom_clone''
                     ''/tmp/bloom/upstream-1.0.0''))"
    by blast
  from passes have passes': "check_for_bloom bloomer_env ''/tmp/bloom/bloom_clone''
       = ([CheckOutput ''git branch'', GitCheckout ''bloom'',
           PathExists ''/tmp/bloom/bloom_clone/bloom.conf''], Inr ())"
    by (simp add: path_join_def)
  from listed listed_again passes' skipped show ?thesis by (intro conjI)
qed

end
